theory Spec2Isabelle
  imports Complex_Main
begin

section \<open>Data model\<close>

text \<open>
  The kernels of \<^verbatim>\<open>crop_and_resize_op.cc\<close> work on dense tensor views
  (\<^verbatim>\<open>TTypes<T, N>::Tensor\<close>). A view is a shape and its elements, read and written by
  an index tuple \<^verbatim>\<open>t(i0, ..., iN)\<close>. The element function is total on index tuples: the
  tuples inside the shape are the tensor's storage, a tuple outside the shape stands for
  whatever memory an unchecked access would reach (the views do no bounds check), and no
  theorem below assumes anything about the values found there. The flattening of tuples
  to addresses is not modelled.

  \<^verbatim>\<open>float\<close> is modelled by \<^typ>\<open>real\<close>: rounding, infinities and NaN are outside the
  model, and the element type \<^verbatim>\<open>T\<close> of the image is taken to be \<^verbatim>\<open>float\<close>, so that the
  casts \<^verbatim>\<open>static_cast<float>\<close> and \<^verbatim>\<open>static_cast<T>\<close> are the identity. \<^verbatim>\<open>int\<close> and
  \<^verbatim>\<open>int32\<close> are modelled by \<^typ>\<open>int\<close>: the only integer arithmetic of the kernels is
  \<^verbatim>\<open>extent - 1\<close> on a non-negative extent and the loop counters below an extent, which
  cannot overflow.
\<close>

record 'a tensor =
  shape :: "int list"
  elems :: "int list \<Rightarrow> 'a"

text \<open>\<^verbatim>\<open>t.dimension(n)\<close>. The rank of a view is fixed by its type, so the kernels only ask
  for dimensions that exist.\<close>

definition dimension :: "'a tensor \<Rightarrow> nat \<Rightarrow> int" where
  "dimension t n = (if n < length (shape t) then shape t ! n else 0)"

text \<open>An index tuple lies inside a shape when it has the shape's rank and every index is
  in \<open>[0, extent)\<close>.\<close>

definition in_shape :: "int list \<Rightarrow> int list \<Rightarrow> bool" where
  "in_shape sh idx \<longleftrightarrow> list_all2 (\<lambda>i n. 0 \<le> i \<and> i < n) idx sh"

text \<open>The tensors of one kernel call. A kernel receives some of them as read-only views
  (\<^verbatim>\<open>ConstTensor\<close>) and one as its output; it returns the \<^verbatim>\<open>bool\<close> of the functor together
  with the tensors after the call.\<close>

record mem =
  m_image :: "real tensor"
  m_boxes :: "real tensor"
  m_box_index :: "int tensor"
  m_grads :: "real tensor"
  m_crops :: "real tensor"
  m_grads_image :: "real tensor"
  m_grads_boxes :: "real tensor"

text \<open>\<^verbatim>\<open>t(idx) += v\<close>\<close>

definition add_at :: "(int list \<Rightarrow> real) \<Rightarrow> int list \<Rightarrow> real \<Rightarrow> (int list \<Rightarrow> real)" where
  "add_at t idx v = t(idx := t idx + v)"

text \<open>Modelled from the spec: \<^verbatim>\<open>FastBoundsCheck\<close> of \<^verbatim>\<open>bounds_check.h\<close>, which is not among
  the sources; the spec says a box's image index "must lie in [0, batch_size)".\<close>

definition FastBoundsCheck :: "int \<Rightarrow> int \<Rightarrow> bool" where
  "FastBoundsCheck index limit \<longleftrightarrow> 0 \<le> index \<and> index < limit"

section \<open>Coordinate mapping\<close>

text \<open>\<^verbatim>\<open>height_scale\<close>, \<^verbatim>\<open>width_scale\<close>, \<^verbatim>\<open>depth_scale\<close> of the forward and the image-gradient
  kernels: \<^verbatim>\<open>(crop > 1) ? (p2 - p1) * (ext - 1) / (crop - 1) : 0\<close>.\<close>

definition crop_scale :: "int \<Rightarrow> int \<Rightarrow> real \<Rightarrow> real \<Rightarrow> real" where
  "crop_scale crop ext p1 p2 =
     (if crop > 1 then (p2 - p1) * real_of_int (ext - 1) / real_of_int (crop - 1) else 0)"

text \<open>\<^verbatim>\<open>height_ratio\<close>, \<^verbatim>\<open>width_ratio\<close>, \<^verbatim>\<open>depth_ratio\<close> of the box-gradient kernels:
  \<^verbatim>\<open>(crop > 1) ? static_cast<float>(ext - 1) / (crop - 1) : 0\<close>, and their scales
  \<^verbatim>\<open>(crop > 1) ? (p2 - p1) * ratio : 0\<close>.\<close>

definition crop_ratio :: "int \<Rightarrow> int \<Rightarrow> real" where
  "crop_ratio crop ext =
     (if crop > 1 then real_of_int (ext - 1) / real_of_int (crop - 1) else 0)"

definition ratio_scale :: "int \<Rightarrow> real \<Rightarrow> real \<Rightarrow> real \<Rightarrow> real" where
  "ratio_scale crop ratio p1 p2 = (if crop > 1 then (p2 - p1) * ratio else 0)"

text \<open>\<^verbatim>\<open>in_y\<close>, \<^verbatim>\<open>in_x\<close>, \<^verbatim>\<open>in_z\<close> of every kernel:
  \<^verbatim>\<open>(crop > 1) ? p1 * (ext - 1) + i * scale : 0.5 * (p1 + p2) * (ext - 1)\<close>.\<close>

definition in_coord :: "int \<Rightarrow> int \<Rightarrow> real \<Rightarrow> real \<Rightarrow> real \<Rightarrow> int \<Rightarrow> real" where
  "in_coord crop ext p1 p2 scale i =
     (if crop > 1 then p1 * real_of_int (ext - 1) + real_of_int i * scale
      else 0.5 * (p1 + p2) * real_of_int (ext - 1))"

section \<open>Forward resampler, 2D: \<^verbatim>\<open>functor::CropAndResize<CPUDevice, T>\<close>\<close>

text \<open>The body of the channel loop: four corner reads and three linear blends.\<close>

definition CropAndResize_pixel ::
  "real tensor \<Rightarrow> int \<Rightarrow> int \<Rightarrow> int \<Rightarrow> int \<Rightarrow> int \<Rightarrow> real \<Rightarrow> real \<Rightarrow> int \<Rightarrow> real" where
  "CropAndResize_pixel img b_in top_y_index bottom_y_index left_x_index right_x_index
       x_lerp y_lerp d =
     (let top_left = elems img [b_in, top_y_index, left_x_index, d];
          top_right = elems img [b_in, top_y_index, right_x_index, d];
          bottom_left = elems img [b_in, bottom_y_index, left_x_index, d];
          bottom_right = elems img [b_in, bottom_y_index, right_x_index, d];
          top_v = top_left + (top_right - top_left) * x_lerp;
          bottom_v = bottom_left + (bottom_right - bottom_left) * x_lerp
      in top_v + (bottom_v - top_v) * y_lerp)"

text \<open>The body of the \<^verbatim>\<open>x\<close> loop.\<close>

definition CropAndResize_x ::
  "real tensor \<Rightarrow> real \<Rightarrow> int \<Rightarrow> int \<Rightarrow> int \<Rightarrow> int \<Rightarrow> int \<Rightarrow> real \<Rightarrow> real \<Rightarrow> real \<Rightarrow>
   int \<Rightarrow> int \<Rightarrow> int \<Rightarrow> real \<Rightarrow> int \<Rightarrow> (int list \<Rightarrow> real) \<Rightarrow> (int list \<Rightarrow> real)" where
  "CropAndResize_x img extrapolation_value image_width crop_width depth b b_in x1 x2
       width_scale y top_y_index bottom_y_index y_lerp x crops =
     (let in_x = in_coord crop_width image_width x1 x2 width_scale x in
      if in_x < 0 \<or> in_x > real_of_int (image_width - 1) then
        fold (\<lambda>d crops. crops([b, y, x, d] := extrapolation_value)) [0..depth - 1] crops
      else
        let left_x_index = \<lfloor>in_x\<rfloor>;
            right_x_index = \<lceil>in_x\<rceil>;
            x_lerp = in_x - real_of_int left_x_index
        in fold (\<lambda>d crops. crops([b, y, x, d] :=
                   CropAndResize_pixel img b_in top_y_index bottom_y_index
                     left_x_index right_x_index x_lerp y_lerp d))
             [0..depth - 1] crops)"

text \<open>The body of the \<^verbatim>\<open>y\<close> loop.\<close>

definition CropAndResize_y ::
  "real tensor \<Rightarrow> real \<Rightarrow> int \<Rightarrow> int \<Rightarrow> int \<Rightarrow> int \<Rightarrow> int \<Rightarrow> int \<Rightarrow> int \<Rightarrow>
   real \<Rightarrow> real \<Rightarrow> real \<Rightarrow> real \<Rightarrow> real \<Rightarrow> real \<Rightarrow> int \<Rightarrow>
   (int list \<Rightarrow> real) \<Rightarrow> (int list \<Rightarrow> real)" where
  "CropAndResize_y img extrapolation_value image_height image_width crop_height crop_width
       depth b b_in y1 x1 y2 x2 height_scale width_scale y crops =
     (let in_y = in_coord crop_height image_height y1 y2 height_scale y in
      if in_y < 0 \<or> in_y > real_of_int (image_height - 1) then
        fold (\<lambda>x. fold (\<lambda>d crops. crops([b, y, x, d] := extrapolation_value))
                     [0..depth - 1])
          [0..crop_width - 1] crops
      else
        let top_y_index = \<lfloor>in_y\<rfloor>;
            bottom_y_index = \<lceil>in_y\<rceil>;
            y_lerp = in_y - real_of_int top_y_index
        in fold (CropAndResize_x img extrapolation_value image_width crop_width depth b b_in
                   x1 x2 width_scale y top_y_index bottom_y_index y_lerp)
             [0..crop_width - 1] crops)"

text \<open>The body of the box loop of the lambda \<^verbatim>\<open>CropAndResizePerBox\<close>.\<close>

definition CropAndResizePerBox ::
  "real tensor \<Rightarrow> real tensor \<Rightarrow> int tensor \<Rightarrow> real \<Rightarrow> int \<Rightarrow> int \<Rightarrow> int \<Rightarrow> int \<Rightarrow> int \<Rightarrow>
   int \<Rightarrow> int \<Rightarrow> (int list \<Rightarrow> real) \<Rightarrow> (int list \<Rightarrow> real)" where
  "CropAndResizePerBox img boxes box_index extrapolation_value batch_size image_height
       image_width crop_height crop_width depth b crops =
     (let y1 = elems boxes [b, 0];
          x1 = elems boxes [b, 1];
          y2 = elems boxes [b, 2];
          x2 = elems boxes [b, 3];
          b_in = elems box_index [b]
      in if \<not> FastBoundsCheck b_in batch_size then crops
         else
           let height_scale = crop_scale crop_height image_height y1 y2;
               width_scale = crop_scale crop_width image_width x1 x2
           in fold (CropAndResize_y img extrapolation_value image_height image_width
                      crop_height crop_width depth b b_in y1 x1 y2 x2 height_scale width_scale)
                [0..crop_height - 1] crops)"

text \<open>The kernel. \<^verbatim>\<open>Shard\<close> hands the lambda contiguous ranges of boxes; the model runs
  the boxes in order.\<close>

definition CropAndResize :: "real \<Rightarrow> mem \<Rightarrow> bool \<times> mem" where
  "CropAndResize extrapolation_value m =
     (let batch_size = dimension (m_image m) 0;
          image_height = dimension (m_image m) 1;
          image_width = dimension (m_image m) 2;
          num_boxes = dimension (m_crops m) 0;
          crop_height = dimension (m_crops m) 1;
          crop_width = dimension (m_crops m) 2;
          depth = dimension (m_crops m) 3
      in (True, m\<lparr>m_crops := (m_crops m)\<lparr>elems :=
            fold (CropAndResizePerBox (m_image m) (m_boxes m) (m_box_index m)
                    extrapolation_value batch_size image_height image_width
                    crop_height crop_width depth)
              [0..num_boxes - 1] (elems (m_crops m))\<rparr>\<rparr>))"

section \<open>Forward resampler, 3D: \<^verbatim>\<open>functor::CropAndResize3D<CPUDevice, T>\<close>\<close>

text \<open>The body of the channel loop: eight corner reads and seven linear blends, with the
  operands the source names.\<close>

definition CropAndResize3D_pixel ::
  "real tensor \<Rightarrow> int \<Rightarrow> int \<Rightarrow> int \<Rightarrow> int \<Rightarrow> int \<Rightarrow> int \<Rightarrow> int \<Rightarrow>
   real \<Rightarrow> real \<Rightarrow> real \<Rightarrow> int \<Rightarrow> real" where
  "CropAndResize3D_pixel img b_in top_y_index bottom_y_index left_x_index right_x_index
       front_z_index back_z_index x_lerp y_lerp z_lerp d =
     (let top_left_front = elems img [b_in, top_y_index, left_x_index, front_z_index, d];
          top_right_front = elems img [b_in, top_y_index, right_x_index, front_z_index, d];
          bottom_left_front = elems img [b_in, bottom_y_index, left_x_index, front_z_index, d];
          bottom_right_front = elems img [b_in, bottom_y_index, right_x_index, front_z_index, d];
          top_left_back = elems img [b_in, top_y_index, left_x_index, back_z_index, d];
          top_right_back = elems img [b_in, top_y_index, right_x_index, back_z_index, d];
          bottom_left_back = elems img [b_in, bottom_y_index, left_x_index, back_z_index, d];
          bottom_right_back = elems img [b_in, bottom_y_index, right_x_index, back_z_index, d];
          top_front = top_left_front + (top_right_front - top_left_front) * x_lerp;
          bottom_front = bottom_left_front + (bottom_right_front - bottom_left_front) * x_lerp;
          front = top_front + (bottom_front - top_front) * y_lerp;
          top_back = top_left_back + (top_right_back - top_left_back) * x_lerp;
          bottom_back = bottom_left_back + (bottom_right_back - bottom_left_front) * x_lerp;
          back = top_back + (bottom_back - top_back) * y_lerp
      in front + (back - front) * z_lerp)"

text \<open>The body of the \<^verbatim>\<open>z\<close> loop. The source computes \<^verbatim>\<open>back_z_index = ceilf(in_x)\<close>.\<close>

definition CropAndResize3D_z ::
  "real tensor \<Rightarrow> real \<Rightarrow> int \<Rightarrow> int \<Rightarrow> int \<Rightarrow> int \<Rightarrow> int \<Rightarrow> real \<Rightarrow> real \<Rightarrow> real \<Rightarrow>
   int \<Rightarrow> int \<Rightarrow> int \<Rightarrow> real \<Rightarrow> int \<Rightarrow> real \<Rightarrow> int \<Rightarrow> int \<Rightarrow> real \<Rightarrow> int \<Rightarrow>
   (int list \<Rightarrow> real) \<Rightarrow> (int list \<Rightarrow> real)" where
  "CropAndResize3D_z img extrapolation_value image_depth crop_depth depth b b_in z1 z2
       depth_scale y top_y_index bottom_y_index y_lerp x in_x left_x_index right_x_index
       x_lerp z crops =
     (let in_z = in_coord crop_depth image_depth z1 z2 depth_scale z in
      if in_z < 0 \<or> in_z > real_of_int (image_depth - 1) then
        fold (\<lambda>d crops. crops([b, y, x, z, d] := extrapolation_value)) [0..depth - 1] crops
      else
        let front_z_index = \<lfloor>in_z\<rfloor>;
            back_z_index = \<lceil>in_x\<rceil>;
            z_lerp = in_z - real_of_int front_z_index
        in fold (\<lambda>d crops. crops([b, y, x, z, d] :=
                   CropAndResize3D_pixel img b_in top_y_index bottom_y_index
                     left_x_index right_x_index front_z_index back_z_index
                     x_lerp y_lerp z_lerp d))
             [0..depth - 1] crops)"

text \<open>The body of the \<^verbatim>\<open>x\<close> loop.\<close>

definition CropAndResize3D_x ::
  "real tensor \<Rightarrow> real \<Rightarrow> int \<Rightarrow> int \<Rightarrow> int \<Rightarrow> int \<Rightarrow> int \<Rightarrow> int \<Rightarrow> int \<Rightarrow>
   real \<Rightarrow> real \<Rightarrow> real \<Rightarrow> real \<Rightarrow> real \<Rightarrow> real \<Rightarrow>
   int \<Rightarrow> int \<Rightarrow> int \<Rightarrow> real \<Rightarrow> int \<Rightarrow> (int list \<Rightarrow> real) \<Rightarrow> (int list \<Rightarrow> real)" where
  "CropAndResize3D_x img extrapolation_value image_width image_depth crop_width crop_depth
       depth b b_in x1 z1 x2 z2 width_scale depth_scale y top_y_index bottom_y_index y_lerp
       x crops =
     (let in_x = in_coord crop_width image_width x1 x2 width_scale x in
      if in_x < 0 \<or> in_x > real_of_int (image_width - 1) then
        fold (\<lambda>z. fold (\<lambda>d crops. crops([b, y, x, z, d] := extrapolation_value))
                     [0..depth - 1])
          [0..crop_depth - 1] crops
      else
        let left_x_index = \<lfloor>in_x\<rfloor>;
            right_x_index = \<lceil>in_x\<rceil>;
            x_lerp = in_x - real_of_int left_x_index
        in fold (CropAndResize3D_z img extrapolation_value image_depth crop_depth depth b b_in
                   z1 z2 depth_scale y top_y_index bottom_y_index y_lerp x in_x
                   left_x_index right_x_index x_lerp)
             [0..crop_depth - 1] crops)"

text \<open>The body of the \<^verbatim>\<open>y\<close> loop.\<close>

definition CropAndResize3D_y ::
  "real tensor \<Rightarrow> real \<Rightarrow> int \<Rightarrow> int \<Rightarrow> int \<Rightarrow> int \<Rightarrow> int \<Rightarrow> int \<Rightarrow> int \<Rightarrow> int \<Rightarrow> int \<Rightarrow>
   real \<Rightarrow> real \<Rightarrow> real \<Rightarrow> real \<Rightarrow> real \<Rightarrow> real \<Rightarrow> real \<Rightarrow> real \<Rightarrow> real \<Rightarrow>
   int \<Rightarrow> (int list \<Rightarrow> real) \<Rightarrow> (int list \<Rightarrow> real)" where
  "CropAndResize3D_y img extrapolation_value image_height image_width image_depth
       crop_height crop_width crop_depth depth b b_in y1 x1 z1 y2 x2 z2
       height_scale width_scale depth_scale y crops =
     (let in_y = in_coord crop_height image_height y1 y2 height_scale y in
      if in_y < 0 \<or> in_y > real_of_int (image_height - 1) then
        fold (\<lambda>x. fold (\<lambda>z. fold (\<lambda>d crops. crops([b, y, x, z, d] := extrapolation_value))
                                  [0..depth - 1])
                     [0..crop_depth - 1])
          [0..crop_width - 1] crops
      else
        let top_y_index = \<lfloor>in_y\<rfloor>;
            bottom_y_index = \<lceil>in_y\<rceil>;
            y_lerp = in_y - real_of_int top_y_index
        in fold (CropAndResize3D_x img extrapolation_value image_width image_depth crop_width
                   crop_depth depth b b_in x1 z1 x2 z2 width_scale depth_scale y
                   top_y_index bottom_y_index y_lerp)
             [0..crop_width - 1] crops)"

text \<open>The body of the box loop of the lambda \<^verbatim>\<open>CropAndResizePerBox3D\<close>.\<close>

definition CropAndResizePerBox3D ::
  "real tensor \<Rightarrow> real tensor \<Rightarrow> int tensor \<Rightarrow> real \<Rightarrow> int \<Rightarrow> int \<Rightarrow> int \<Rightarrow> int \<Rightarrow>
   int \<Rightarrow> int \<Rightarrow> int \<Rightarrow> int \<Rightarrow> int \<Rightarrow> (int list \<Rightarrow> real) \<Rightarrow> (int list \<Rightarrow> real)" where
  "CropAndResizePerBox3D img boxes box_index extrapolation_value batch_size image_height
       image_width image_depth crop_height crop_width crop_depth depth b crops =
     (let y1 = elems boxes [b, 0];
          x1 = elems boxes [b, 1];
          z1 = elems boxes [b, 2];
          y2 = elems boxes [b, 3];
          x2 = elems boxes [b, 4];
          z2 = elems boxes [b, 5];
          b_in = elems box_index [b]
      in if \<not> FastBoundsCheck b_in batch_size then crops
         else
           let height_scale = crop_scale crop_height image_height y1 y2;
               width_scale = crop_scale crop_width image_width x1 x2;
               depth_scale = crop_scale crop_depth image_depth z1 z2
           in fold (CropAndResize3D_y img extrapolation_value image_height image_width
                      image_depth crop_height crop_width crop_depth depth b b_in
                      y1 x1 z1 y2 x2 z2 height_scale width_scale depth_scale)
                [0..crop_height - 1] crops)"

definition CropAndResize3D :: "real \<Rightarrow> mem \<Rightarrow> bool \<times> mem" where
  "CropAndResize3D extrapolation_value m =
     (let batch_size = dimension (m_image m) 0;
          image_height = dimension (m_image m) 1;
          image_width = dimension (m_image m) 2;
          image_depth = dimension (m_image m) 3;
          num_boxes = dimension (m_crops m) 0;
          crop_height = dimension (m_crops m) 1;
          crop_width = dimension (m_crops m) 2;
          crop_depth = dimension (m_crops m) 3;
          depth = dimension (m_crops m) 4
      in (True, m\<lparr>m_crops := (m_crops m)\<lparr>elems :=
            fold (CropAndResizePerBox3D (m_image m) (m_boxes m) (m_box_index m)
                    extrapolation_value batch_size image_height image_width image_depth
                    crop_height crop_width crop_depth depth)
              [0..num_boxes - 1] (elems (m_crops m))\<rparr>\<rparr>))"

section \<open>Image gradient, 2D: \<^verbatim>\<open>functor::CropAndResizeBackpropImage<CPUDevice, T>\<close>\<close>

text \<open>The body of the channel loop: four \<^verbatim>\<open>+=\<close> in the order of the source.\<close>

definition CropAndResizeBackpropImage_d ::
  "real tensor \<Rightarrow> int \<Rightarrow> int \<Rightarrow> int \<Rightarrow> int \<Rightarrow> int \<Rightarrow> int \<Rightarrow> int \<Rightarrow> int \<Rightarrow>
   real \<Rightarrow> real \<Rightarrow> int \<Rightarrow>
   (int list \<Rightarrow> real) \<Rightarrow> (int list \<Rightarrow> real)" where
  "CropAndResizeBackpropImage_d grads b b_in y x top_y_index bottom_y_index left_x_index
       right_x_index x_lerp y_lerp d grads_image =
     (let dtop = (1 - y_lerp) * elems grads [b, y, x, d];
          g1 = add_at grads_image [b_in, top_y_index, left_x_index, d] ((1 - x_lerp) * dtop);
          g2 = add_at g1 [b_in, top_y_index, right_x_index, d] (x_lerp * dtop);
          dbottom = y_lerp * elems grads [b, y, x, d];
          g3 = add_at g2 [b_in, bottom_y_index, left_x_index, d] ((1 - x_lerp) * dbottom)
      in add_at g3 [b_in, bottom_y_index, right_x_index, d] (x_lerp * dbottom))"

text \<open>The body of the \<^verbatim>\<open>x\<close> loop.\<close>

definition CropAndResizeBackpropImage_x ::
  "real tensor \<Rightarrow> int \<Rightarrow> int \<Rightarrow> int \<Rightarrow> int \<Rightarrow> int \<Rightarrow> real \<Rightarrow> real \<Rightarrow> real \<Rightarrow>
   int \<Rightarrow> int \<Rightarrow> int \<Rightarrow> real \<Rightarrow> int \<Rightarrow> (int list \<Rightarrow> real) \<Rightarrow> (int list \<Rightarrow> real)" where
  "CropAndResizeBackpropImage_x grads image_width crop_width depth b b_in x1 x2 width_scale
       y top_y_index bottom_y_index y_lerp x grads_image =
     (let in_x = in_coord crop_width image_width x1 x2 width_scale x in
      if in_x < 0 \<or> in_x > real_of_int (image_width - 1) then grads_image
      else
        let left_x_index = \<lfloor>in_x\<rfloor>;
            right_x_index = \<lceil>in_x\<rceil>;
            x_lerp = in_x - real_of_int left_x_index
        in fold (CropAndResizeBackpropImage_d grads b b_in y x top_y_index bottom_y_index
                   left_x_index right_x_index x_lerp y_lerp)
             [0..depth - 1] grads_image)"

text \<open>The body of the \<^verbatim>\<open>y\<close> loop.\<close>

definition CropAndResizeBackpropImage_y ::
  "real tensor \<Rightarrow> int \<Rightarrow> int \<Rightarrow> int \<Rightarrow> int \<Rightarrow> int \<Rightarrow> int \<Rightarrow> int \<Rightarrow>
   real \<Rightarrow> real \<Rightarrow> real \<Rightarrow> real \<Rightarrow> real \<Rightarrow> real \<Rightarrow> int \<Rightarrow>
   (int list \<Rightarrow> real) \<Rightarrow> (int list \<Rightarrow> real)" where
  "CropAndResizeBackpropImage_y grads image_height image_width crop_height crop_width depth
       b b_in y1 x1 y2 x2 height_scale width_scale y grads_image =
     (let in_y = in_coord crop_height image_height y1 y2 height_scale y in
      if in_y < 0 \<or> in_y > real_of_int (image_height - 1) then grads_image
      else
        let top_y_index = \<lfloor>in_y\<rfloor>;
            bottom_y_index = \<lceil>in_y\<rceil>;
            y_lerp = in_y - real_of_int top_y_index
        in fold (CropAndResizeBackpropImage_x grads image_width crop_width depth b b_in
                   x1 x2 width_scale y top_y_index bottom_y_index y_lerp)
             [0..crop_width - 1] grads_image)"

text \<open>The body of the box loop.\<close>

definition CropAndResizeBackpropImage_b ::
  "real tensor \<Rightarrow> real tensor \<Rightarrow> int tensor \<Rightarrow> int \<Rightarrow> int \<Rightarrow> int \<Rightarrow> int \<Rightarrow> int \<Rightarrow> int \<Rightarrow>
   int \<Rightarrow> (int list \<Rightarrow> real) \<Rightarrow> (int list \<Rightarrow> real)" where
  "CropAndResizeBackpropImage_b grads boxes box_index batch_size image_height image_width
       crop_height crop_width depth b grads_image =
     (let y1 = elems boxes [b, 0];
          x1 = elems boxes [b, 1];
          y2 = elems boxes [b, 2];
          x2 = elems boxes [b, 3];
          b_in = elems box_index [b]
      in if \<not> FastBoundsCheck b_in batch_size then grads_image
         else
           let height_scale = crop_scale crop_height image_height y1 y2;
               width_scale = crop_scale crop_width image_width x1 x2
           in fold (CropAndResizeBackpropImage_y grads image_height image_width crop_height
                      crop_width depth b b_in y1 x1 y2 x2 height_scale width_scale)
                [0..crop_height - 1] grads_image)"

text \<open>The kernel: \<^verbatim>\<open>grads_image.setZero()\<close>, then the box loop.\<close>

definition CropAndResizeBackpropImage :: "mem \<Rightarrow> bool \<times> mem" where
  "CropAndResizeBackpropImage m =
     (let batch_size = dimension (m_grads_image m) 0;
          image_height = dimension (m_grads_image m) 1;
          image_width = dimension (m_grads_image m) 2;
          num_boxes = dimension (m_grads m) 0;
          crop_height = dimension (m_grads m) 1;
          crop_width = dimension (m_grads m) 2;
          depth = dimension (m_grads m) 3
      in (True, m\<lparr>m_grads_image := (m_grads_image m)\<lparr>elems :=
            fold (CropAndResizeBackpropImage_b (m_grads m) (m_boxes m) (m_box_index m)
                    batch_size image_height image_width crop_height crop_width depth)
              [0..num_boxes - 1] (\<lambda>idx. 0)\<rparr>\<rparr>))"

section \<open>Image gradient, 3D: \<^verbatim>\<open>functor::CropAndResizeBackpropImage3D<CPUDevice, T>\<close>\<close>

text \<open>The body of the channel loop: eight \<^verbatim>\<open>+=\<close> in the order of the source.\<close>

definition CropAndResizeBackpropImage3D_d ::
  "real tensor \<Rightarrow> int \<Rightarrow> int \<Rightarrow> int \<Rightarrow> int \<Rightarrow> int \<Rightarrow> int \<Rightarrow> int \<Rightarrow> int \<Rightarrow> int \<Rightarrow> int \<Rightarrow> int \<Rightarrow>
   real \<Rightarrow> real \<Rightarrow> real \<Rightarrow> int \<Rightarrow> (int list \<Rightarrow> real) \<Rightarrow> (int list \<Rightarrow> real)" where
  "CropAndResizeBackpropImage3D_d grads b b_in y x z top_y_index bottom_y_index left_x_index
       right_x_index front_z_index back_z_index x_lerp y_lerp z_lerp d grads_image =
     (let dback = z_lerp * elems grads [b, y, x, z, d];
          dfront = (1 - z_lerp) * elems grads [b, y, x, z, d];
          dbottom_back = y_lerp * dback;
          dtop_back = (1 - y_lerp) * dback;
          dtop_front = (1 - y_lerp) * dfront;
          dbottom_front = y_lerp * dfront;
          g1 = add_at grads_image [b_in, top_y_index, left_x_index, front_z_index, d]
                 ((1 - x_lerp) * dtop_front);
          g2 = add_at g1 [b_in, top_y_index, right_x_index, front_z_index, d]
                 (x_lerp * dtop_front);
          g3 = add_at g2 [b_in, bottom_y_index, left_x_index, front_z_index, d]
                 ((1 - x_lerp) * dbottom_front);
          g4 = add_at g3 [b_in, bottom_y_index, right_x_index, front_z_index, d]
                 (x_lerp * dbottom_front);
          g5 = add_at g4 [b_in, top_y_index, left_x_index, back_z_index, d]
                 ((1 - x_lerp) * dtop_back);
          g6 = add_at g5 [b_in, top_y_index, right_x_index, back_z_index, d]
                 (x_lerp * dtop_back);
          g7 = add_at g6 [b_in, bottom_y_index, left_x_index, back_z_index, d]
                 ((1 - x_lerp) * dbottom_back)
      in add_at g7 [b_in, bottom_y_index, right_x_index, back_z_index, d]
           (x_lerp * dbottom_back))"

text \<open>The body of the \<^verbatim>\<open>z\<close> loop. The source computes
  \<^verbatim>\<open>front_z_index = floorf(in_x)\<close> and \<^verbatim>\<open>back_z_index = ceilf(in_x)\<close>.\<close>

definition CropAndResizeBackpropImage3D_z ::
  "real tensor \<Rightarrow> int \<Rightarrow> int \<Rightarrow> int \<Rightarrow> int \<Rightarrow> int \<Rightarrow> real \<Rightarrow> real \<Rightarrow> real \<Rightarrow>
   int \<Rightarrow> int \<Rightarrow> int \<Rightarrow> real \<Rightarrow> int \<Rightarrow> real \<Rightarrow> int \<Rightarrow> int \<Rightarrow> real \<Rightarrow> int \<Rightarrow>
   (int list \<Rightarrow> real) \<Rightarrow> (int list \<Rightarrow> real)" where
  "CropAndResizeBackpropImage3D_z grads image_depth crop_depth depth b b_in z1 z2 depth_scale
       y top_y_index bottom_y_index y_lerp x in_x left_x_index right_x_index x_lerp z
       grads_image =
     (let in_z = in_coord crop_depth image_depth z1 z2 depth_scale z in
      if in_z < 0 \<or> in_z > real_of_int (image_depth - 1) then grads_image
      else
        let front_z_index = \<lfloor>in_x\<rfloor>;
            back_z_index = \<lceil>in_x\<rceil>;
            z_lerp = in_z - real_of_int front_z_index
        in fold (CropAndResizeBackpropImage3D_d grads b b_in y x z top_y_index bottom_y_index
                   left_x_index right_x_index front_z_index back_z_index x_lerp y_lerp z_lerp)
             [0..depth - 1] grads_image)"

text \<open>The body of the \<^verbatim>\<open>x\<close> loop.\<close>

definition CropAndResizeBackpropImage3D_x ::
  "real tensor \<Rightarrow> int \<Rightarrow> int \<Rightarrow> int \<Rightarrow> int \<Rightarrow> int \<Rightarrow> int \<Rightarrow> int \<Rightarrow>
   real \<Rightarrow> real \<Rightarrow> real \<Rightarrow> real \<Rightarrow> real \<Rightarrow> real \<Rightarrow>
   int \<Rightarrow> int \<Rightarrow> int \<Rightarrow> real \<Rightarrow> int \<Rightarrow> (int list \<Rightarrow> real) \<Rightarrow> (int list \<Rightarrow> real)" where
  "CropAndResizeBackpropImage3D_x grads image_width image_depth crop_width crop_depth depth
       b b_in x1 z1 x2 z2 width_scale depth_scale y top_y_index bottom_y_index y_lerp x
       grads_image =
     (let in_x = in_coord crop_width image_width x1 x2 width_scale x in
      if in_x < 0 \<or> in_x > real_of_int (image_width - 1) then grads_image
      else
        let left_x_index = \<lfloor>in_x\<rfloor>;
            right_x_index = \<lceil>in_x\<rceil>;
            x_lerp = in_x - real_of_int left_x_index
        in fold (CropAndResizeBackpropImage3D_z grads image_depth crop_depth depth b b_in
                   z1 z2 depth_scale y top_y_index bottom_y_index y_lerp x in_x
                   left_x_index right_x_index x_lerp)
             [0..crop_depth - 1] grads_image)"

text \<open>The body of the \<^verbatim>\<open>y\<close> loop.\<close>

definition CropAndResizeBackpropImage3D_y ::
  "real tensor \<Rightarrow> int \<Rightarrow> int \<Rightarrow> int \<Rightarrow> int \<Rightarrow> int \<Rightarrow> int \<Rightarrow> int \<Rightarrow> int \<Rightarrow> int \<Rightarrow>
   real \<Rightarrow> real \<Rightarrow> real \<Rightarrow> real \<Rightarrow> real \<Rightarrow> real \<Rightarrow> real \<Rightarrow> real \<Rightarrow> real \<Rightarrow>
   int \<Rightarrow> (int list \<Rightarrow> real) \<Rightarrow> (int list \<Rightarrow> real)" where
  "CropAndResizeBackpropImage3D_y grads image_height image_width image_depth crop_height
       crop_width crop_depth depth b b_in y1 x1 z1 y2 x2 z2 height_scale width_scale
       depth_scale y grads_image =
     (let in_y = in_coord crop_height image_height y1 y2 height_scale y in
      if in_y < 0 \<or> in_y > real_of_int (image_height - 1) then grads_image
      else
        let top_y_index = \<lfloor>in_y\<rfloor>;
            bottom_y_index = \<lceil>in_y\<rceil>;
            y_lerp = in_y - real_of_int top_y_index
        in fold (CropAndResizeBackpropImage3D_x grads image_width image_depth crop_width
                   crop_depth depth b b_in x1 z1 x2 z2 width_scale depth_scale y
                   top_y_index bottom_y_index y_lerp)
             [0..crop_width - 1] grads_image)"

text \<open>The body of the box loop.\<close>

definition CropAndResizeBackpropImage3D_b ::
  "real tensor \<Rightarrow> real tensor \<Rightarrow> int tensor \<Rightarrow> int \<Rightarrow> int \<Rightarrow> int \<Rightarrow> int \<Rightarrow> int \<Rightarrow> int \<Rightarrow>
   int \<Rightarrow> int \<Rightarrow> int \<Rightarrow> (int list \<Rightarrow> real) \<Rightarrow> (int list \<Rightarrow> real)" where
  "CropAndResizeBackpropImage3D_b grads boxes box_index batch_size image_height image_width
       image_depth crop_height crop_width crop_depth depth b grads_image =
     (let y1 = elems boxes [b, 0];
          x1 = elems boxes [b, 1];
          z1 = elems boxes [b, 2];
          y2 = elems boxes [b, 3];
          x2 = elems boxes [b, 4];
          z2 = elems boxes [b, 5];
          b_in = elems box_index [b]
      in if \<not> FastBoundsCheck b_in batch_size then grads_image
         else
           let height_scale = crop_scale crop_height image_height y1 y2;
               width_scale = crop_scale crop_width image_width x1 x2;
               depth_scale = crop_scale crop_depth image_depth z1 z2
           in fold (CropAndResizeBackpropImage3D_y grads image_height image_width image_depth
                      crop_height crop_width crop_depth depth b b_in y1 x1 z1 y2 x2 z2
                      height_scale width_scale depth_scale)
                [0..crop_height - 1] grads_image)"

definition CropAndResizeBackpropImage3D :: "mem \<Rightarrow> bool \<times> mem" where
  "CropAndResizeBackpropImage3D m =
     (let batch_size = dimension (m_grads_image m) 0;
          image_height = dimension (m_grads_image m) 1;
          image_width = dimension (m_grads_image m) 2;
          image_depth = dimension (m_grads_image m) 3;
          num_boxes = dimension (m_grads m) 0;
          crop_height = dimension (m_grads m) 1;
          crop_width = dimension (m_grads m) 2;
          crop_depth = dimension (m_grads m) 3;
          depth = dimension (m_grads m) 4
      in (True, m\<lparr>m_grads_image := (m_grads_image m)\<lparr>elems :=
            fold (CropAndResizeBackpropImage3D_b (m_grads m) (m_boxes m) (m_box_index m)
                    batch_size image_height image_width image_depth
                    crop_height crop_width crop_depth depth)
              [0..num_boxes - 1] (\<lambda>idx. 0)\<rparr>\<rparr>))"

section \<open>Box gradient, 2D: \<^verbatim>\<open>functor::CropAndResizeBackpropBoxes<CPUDevice, T>\<close>\<close>

text \<open>The body of the channel loop: the corner reads, the two image derivatives modulated
  by the incoming gradient, and the four \<^verbatim>\<open>+=\<close> on the box's gradient.\<close>

definition CropAndResizeBackpropBoxes_d ::
  "real tensor \<Rightarrow> real tensor \<Rightarrow> int \<Rightarrow> int \<Rightarrow> int \<Rightarrow> int \<Rightarrow> int \<Rightarrow> int \<Rightarrow> real \<Rightarrow> real \<Rightarrow>
   int \<Rightarrow> int \<Rightarrow> int \<Rightarrow> int \<Rightarrow> int \<Rightarrow> int \<Rightarrow> real \<Rightarrow> real \<Rightarrow> int \<Rightarrow>
   (int list \<Rightarrow> real) \<Rightarrow> (int list \<Rightarrow> real)" where
  "CropAndResizeBackpropBoxes_d grads img image_height image_width crop_height crop_width
       b b_in height_ratio width_ratio y x top_y_index bottom_y_index left_x_index
       right_x_index x_lerp y_lerp d grads_boxes =
     (let top_left = elems img [b_in, top_y_index, left_x_index, d];
          top_right = elems img [b_in, top_y_index, right_x_index, d];
          bottom_left = elems img [b_in, bottom_y_index, left_x_index, d];
          bottom_right = elems img [b_in, bottom_y_index, right_x_index, d];
          image_grad_y = (1 - x_lerp) * (bottom_left - top_left)
                         + x_lerp * (bottom_right - top_right);
          image_grad_x = (1 - y_lerp) * (top_right - top_left)
                         + y_lerp * (bottom_right - bottom_left);
          top_grad = elems grads [b, y, x, d];
          image_grad_y = image_grad_y * top_grad;
          image_grad_x = image_grad_x * top_grad;
          g1 = (if crop_height > 1 then
                  add_at (add_at grads_boxes [b, 0]
                            (image_grad_y * (real_of_int (image_height - 1)
                                             - real_of_int y * height_ratio)))
                    [b, 2] (image_grad_y * (real_of_int y * height_ratio))
                else
                  add_at (add_at grads_boxes [b, 0]
                            (image_grad_y * 0.5 * real_of_int (image_height - 1)))
                    [b, 2] (image_grad_y * 0.5 * real_of_int (image_height - 1)))
      in if crop_width > 1 then
           add_at (add_at g1 [b, 1]
                     (image_grad_x * (real_of_int (image_width - 1)
                                      - real_of_int x * width_ratio)))
             [b, 3] (image_grad_x * (real_of_int x * width_ratio))
         else
           add_at (add_at g1 [b, 1] (image_grad_x * 0.5 * real_of_int (image_width - 1)))
             [b, 3] (image_grad_x * 0.5 * real_of_int (image_width - 1)))"

text \<open>The body of the \<^verbatim>\<open>x\<close> loop.\<close>

definition CropAndResizeBackpropBoxes_x ::
  "real tensor \<Rightarrow> real tensor \<Rightarrow> int \<Rightarrow> int \<Rightarrow> int \<Rightarrow> int \<Rightarrow> int \<Rightarrow> int \<Rightarrow> int \<Rightarrow>
   real \<Rightarrow> real \<Rightarrow> real \<Rightarrow> real \<Rightarrow> real \<Rightarrow>
   int \<Rightarrow> int \<Rightarrow> int \<Rightarrow> real \<Rightarrow> int \<Rightarrow> (int list \<Rightarrow> real) \<Rightarrow> (int list \<Rightarrow> real)" where
  "CropAndResizeBackpropBoxes_x grads img image_height image_width crop_height crop_width
       depth b b_in x1 x2 height_ratio width_ratio width_scale y top_y_index bottom_y_index
       y_lerp x grads_boxes =
     (let in_x = in_coord crop_width image_width x1 x2 width_scale x in
      if in_x < 0 \<or> in_x > real_of_int (image_width - 1) then grads_boxes
      else
        let left_x_index = \<lfloor>in_x\<rfloor>;
            right_x_index = \<lceil>in_x\<rceil>;
            x_lerp = in_x - real_of_int left_x_index
        in fold (CropAndResizeBackpropBoxes_d grads img image_height image_width crop_height
                   crop_width b b_in height_ratio width_ratio y x top_y_index bottom_y_index
                   left_x_index right_x_index x_lerp y_lerp)
             [0..depth - 1] grads_boxes)"

text \<open>The body of the \<^verbatim>\<open>y\<close> loop.\<close>

definition CropAndResizeBackpropBoxes_y ::
  "real tensor \<Rightarrow> real tensor \<Rightarrow> int \<Rightarrow> int \<Rightarrow> int \<Rightarrow> int \<Rightarrow> int \<Rightarrow> int \<Rightarrow> int \<Rightarrow>
   real \<Rightarrow> real \<Rightarrow> real \<Rightarrow> real \<Rightarrow> real \<Rightarrow> real \<Rightarrow> real \<Rightarrow> real \<Rightarrow> int \<Rightarrow>
   (int list \<Rightarrow> real) \<Rightarrow> (int list \<Rightarrow> real)" where
  "CropAndResizeBackpropBoxes_y grads img image_height image_width crop_height crop_width
       depth b b_in y1 x1 y2 x2 height_ratio width_ratio height_scale width_scale y
       grads_boxes =
     (let in_y = in_coord crop_height image_height y1 y2 height_scale y in
      if in_y < 0 \<or> in_y > real_of_int (image_height - 1) then grads_boxes
      else
        let top_y_index = \<lfloor>in_y\<rfloor>;
            bottom_y_index = \<lceil>in_y\<rceil>;
            y_lerp = in_y - real_of_int top_y_index
        in fold (CropAndResizeBackpropBoxes_x grads img image_height image_width crop_height
                   crop_width depth b b_in x1 x2 height_ratio width_ratio width_scale y
                   top_y_index bottom_y_index y_lerp)
             [0..crop_width - 1] grads_boxes)"

text \<open>The body of the box loop.\<close>

definition CropAndResizeBackpropBoxes_b ::
  "real tensor \<Rightarrow> real tensor \<Rightarrow> real tensor \<Rightarrow> int tensor \<Rightarrow> int \<Rightarrow> int \<Rightarrow> int \<Rightarrow> int \<Rightarrow>
   int \<Rightarrow> int \<Rightarrow> int \<Rightarrow> (int list \<Rightarrow> real) \<Rightarrow> (int list \<Rightarrow> real)" where
  "CropAndResizeBackpropBoxes_b grads img boxes box_index batch_size image_height image_width
       crop_height crop_width depth b grads_boxes =
     (let y1 = elems boxes [b, 0];
          x1 = elems boxes [b, 1];
          y2 = elems boxes [b, 2];
          x2 = elems boxes [b, 3];
          b_in = elems box_index [b]
      in if \<not> FastBoundsCheck b_in batch_size then grads_boxes
         else
           let height_ratio = crop_ratio crop_height image_height;
               width_ratio = crop_ratio crop_width image_width;
               height_scale = ratio_scale crop_height height_ratio y1 y2;
               width_scale = ratio_scale crop_width width_ratio x1 x2
           in fold (CropAndResizeBackpropBoxes_y grads img image_height image_width
                      crop_height crop_width depth b b_in y1 x1 y2 x2 height_ratio
                      width_ratio height_scale width_scale)
                [0..crop_height - 1] grads_boxes)"

text \<open>The kernel: \<^verbatim>\<open>grads_boxes.setZero()\<close>, then the box loop.\<close>

definition CropAndResizeBackpropBoxes :: "mem \<Rightarrow> bool \<times> mem" where
  "CropAndResizeBackpropBoxes m =
     (let batch_size = dimension (m_image m) 0;
          image_height = dimension (m_image m) 1;
          image_width = dimension (m_image m) 2;
          num_boxes = dimension (m_grads m) 0;
          crop_height = dimension (m_grads m) 1;
          crop_width = dimension (m_grads m) 2;
          depth = dimension (m_grads m) 3
      in (True, m\<lparr>m_grads_boxes := (m_grads_boxes m)\<lparr>elems :=
            fold (CropAndResizeBackpropBoxes_b (m_grads m) (m_image m) (m_boxes m)
                    (m_box_index m) batch_size image_height image_width
                    crop_height crop_width depth)
              [0..num_boxes - 1] (\<lambda>idx. 0)\<rparr>\<rparr>))"

section \<open>Box gradient, 3D: \<^verbatim>\<open>functor::CropAndResizeBackpropBoxes3D<CPUDevice, T>\<close>\<close>

text \<open>The body of the channel loop: the eight corner reads, the three image derivatives
  modulated by the incoming gradient, and the six \<^verbatim>\<open>+=\<close> on the box's gradient.\<close>

definition CropAndResizeBackpropBoxes3D_d ::
  "real tensor \<Rightarrow> real tensor \<Rightarrow> int \<Rightarrow> int \<Rightarrow>
   int \<Rightarrow> int \<Rightarrow> int \<Rightarrow> int \<Rightarrow> int \<Rightarrow>
   int \<Rightarrow> real \<Rightarrow> real \<Rightarrow> real \<Rightarrow>
   int \<Rightarrow> int \<Rightarrow> int \<Rightarrow> int \<Rightarrow> int \<Rightarrow>
   int \<Rightarrow> int \<Rightarrow> int \<Rightarrow> int \<Rightarrow> real \<Rightarrow>
   real \<Rightarrow> real \<Rightarrow> int \<Rightarrow>
   (int list \<Rightarrow> real) \<Rightarrow> (int list \<Rightarrow> real)" where
  "CropAndResizeBackpropBoxes3D_d grads img image_height image_width image_depth crop_height
       crop_width crop_depth b b_in height_ratio width_ratio depth_ratio y x z top_y_index
       bottom_y_index left_x_index right_x_index front_z_index back_z_index
       x_lerp y_lerp z_lerp d grads_boxes =
     (let top_left_front = elems img [b_in, top_y_index, left_x_index, front_z_index, d];
          top_right_front = elems img [b_in, top_y_index, right_x_index, front_z_index, d];
          bottom_left_front = elems img [b_in, bottom_y_index, left_x_index, front_z_index, d];
          bottom_right_front = elems img [b_in, bottom_y_index, right_x_index, front_z_index, d];
          top_left_back = elems img [b_in, top_y_index, left_x_index, back_z_index, d];
          top_right_back = elems img [b_in, top_y_index, right_x_index, back_z_index, d];
          bottom_left_back = elems img [b_in, bottom_y_index, left_x_index, back_z_index, d];
          bottom_right_back = elems img [b_in, bottom_y_index, right_x_index, back_z_index, d];
          image_grad_y =
            (1 - z_lerp) * ((1 - x_lerp) * (bottom_left_front - top_left_front)
                            + x_lerp * (bottom_right_front - top_right_front))
            + z_lerp * ((1 - x_lerp) * (bottom_left_back - top_left_back)
                        + x_lerp * (bottom_right_back - top_right_back));
          image_grad_x =
            (1 - z_lerp) * ((1 - y_lerp) * (top_right_front - top_left_front)
                            + y_lerp * (bottom_right_front - bottom_left_front))
            + z_lerp * ((1 - y_lerp) * (top_right_back - top_left_back)
                        + y_lerp * (bottom_right_back - bottom_left_back));
          image_grad_z =
            (1 - y_lerp) * ((1 - x_lerp) * (top_left_back - top_left_front)
                            + x_lerp * (top_right_back - top_right_front))
            + y_lerp * ((1 - x_lerp) * (bottom_left_back - bottom_left_front)
                        + x_lerp * (bottom_right_back - bottom_right_front));
          top_grad = elems grads [b, y, x, z, d];
          image_grad_y = image_grad_y * top_grad;
          image_grad_x = image_grad_x * top_grad;
          image_grad_z = image_grad_z * top_grad;
          g1 = (if crop_height > 1 then
                  add_at (add_at grads_boxes [b, 0]
                            (image_grad_y * (real_of_int (image_height - 1)
                                             - real_of_int y * height_ratio)))
                    [b, 3] (image_grad_y * (real_of_int y * height_ratio))
                else
                  add_at (add_at grads_boxes [b, 0]
                            (image_grad_y * 0.5 * real_of_int (image_height - 1)))
                    [b, 3] (image_grad_y * 0.5 * real_of_int (image_height - 1)));
          g2 = (if crop_width > 1 then
                  add_at (add_at g1 [b, 1]
                            (image_grad_x * (real_of_int (image_width - 1)
                                             - real_of_int x * width_ratio)))
                    [b, 4] (image_grad_x * (real_of_int x * width_ratio))
                else
                  add_at (add_at g1 [b, 1]
                            (image_grad_x * 0.5 * real_of_int (image_width - 1)))
                    [b, 4] (image_grad_x * 0.5 * real_of_int (image_width - 1)))
      in if crop_depth > 1 then
           add_at (add_at g2 [b, 2]
                     (image_grad_z * (real_of_int (image_depth - 1)
                                      - real_of_int z * depth_ratio)))
             [b, 5] (image_grad_z * (real_of_int z * depth_ratio))
         else
           add_at (add_at g2 [b, 2] (image_grad_z * 0.5 * real_of_int (image_depth - 1)))
             [b, 5] (image_grad_z * 0.5 * real_of_int (image_depth - 1)))"

text \<open>The body of the \<^verbatim>\<open>z\<close> loop.\<close>

definition CropAndResizeBackpropBoxes3D_z ::
  "real tensor \<Rightarrow> real tensor \<Rightarrow> int \<Rightarrow> int \<Rightarrow>
   int \<Rightarrow> int \<Rightarrow> int \<Rightarrow> int \<Rightarrow> int \<Rightarrow>
   int \<Rightarrow> int \<Rightarrow> real \<Rightarrow> real \<Rightarrow>
   real \<Rightarrow> real \<Rightarrow> real \<Rightarrow> real \<Rightarrow>
   int \<Rightarrow> int \<Rightarrow> int \<Rightarrow> real \<Rightarrow> int \<Rightarrow>
   int \<Rightarrow> int \<Rightarrow> real \<Rightarrow> int \<Rightarrow>
   (int list \<Rightarrow> real) \<Rightarrow> (int list \<Rightarrow> real)" where
  "CropAndResizeBackpropBoxes3D_z grads img image_height image_width image_depth crop_height
       crop_width crop_depth depth b b_in z1 z2 height_ratio width_ratio depth_ratio
       depth_scale y top_y_index bottom_y_index y_lerp x left_x_index right_x_index x_lerp z
       grads_boxes =
     (let in_z = in_coord crop_depth image_depth z1 z2 depth_scale z in
      if in_z < 0 \<or> in_z > real_of_int (image_depth - 1) then grads_boxes
      else
        let front_z_index = \<lfloor>in_z\<rfloor>;
            back_z_index = \<lceil>in_z\<rceil>;
            z_lerp = in_z - real_of_int front_z_index
        in fold (CropAndResizeBackpropBoxes3D_d grads img image_height image_width image_depth
                   crop_height crop_width crop_depth b b_in height_ratio width_ratio
                   depth_ratio y x z top_y_index bottom_y_index left_x_index right_x_index
                   front_z_index back_z_index x_lerp y_lerp z_lerp)
             [0..depth - 1] grads_boxes)"

text \<open>The body of the \<^verbatim>\<open>x\<close> loop.\<close>

definition CropAndResizeBackpropBoxes3D_x ::
  "real tensor \<Rightarrow> real tensor \<Rightarrow> int \<Rightarrow> int \<Rightarrow>
   int \<Rightarrow> int \<Rightarrow> int \<Rightarrow> int \<Rightarrow> int \<Rightarrow>
   int \<Rightarrow> int \<Rightarrow> real \<Rightarrow> real \<Rightarrow>
   real \<Rightarrow> real \<Rightarrow> real \<Rightarrow> real \<Rightarrow>
   real \<Rightarrow> real \<Rightarrow> real \<Rightarrow> int \<Rightarrow>
   int \<Rightarrow> int \<Rightarrow> real \<Rightarrow> int \<Rightarrow>
   (int list \<Rightarrow> real) \<Rightarrow> (int list \<Rightarrow> real)" where
  "CropAndResizeBackpropBoxes3D_x grads img image_height image_width image_depth crop_height
       crop_width crop_depth depth b b_in x1 z1 x2 z2 height_ratio width_ratio depth_ratio
       width_scale depth_scale y top_y_index bottom_y_index y_lerp x grads_boxes =
     (let in_x = in_coord crop_width image_width x1 x2 width_scale x in
      if in_x < 0 \<or> in_x > real_of_int (image_width - 1) then grads_boxes
      else
        let left_x_index = \<lfloor>in_x\<rfloor>;
            right_x_index = \<lceil>in_x\<rceil>;
            x_lerp = in_x - real_of_int left_x_index
        in fold (CropAndResizeBackpropBoxes3D_z grads img image_height image_width image_depth
                   crop_height crop_width crop_depth depth b b_in z1 z2 height_ratio
                   width_ratio depth_ratio depth_scale y top_y_index bottom_y_index y_lerp
                   x left_x_index right_x_index x_lerp)
             [0..crop_depth - 1] grads_boxes)"

text \<open>The body of the \<^verbatim>\<open>y\<close> loop.\<close>

definition CropAndResizeBackpropBoxes3D_y ::
  "real tensor \<Rightarrow> real tensor \<Rightarrow> int \<Rightarrow> int \<Rightarrow>
   int \<Rightarrow> int \<Rightarrow> int \<Rightarrow> int \<Rightarrow> int \<Rightarrow>
   int \<Rightarrow> int \<Rightarrow> real \<Rightarrow> real \<Rightarrow>
   real \<Rightarrow> real \<Rightarrow> real \<Rightarrow> real \<Rightarrow>
   real \<Rightarrow> real \<Rightarrow> real \<Rightarrow> real \<Rightarrow>
   real \<Rightarrow> real \<Rightarrow> int \<Rightarrow>
   (int list \<Rightarrow> real) \<Rightarrow> (int list \<Rightarrow> real)" where
  "CropAndResizeBackpropBoxes3D_y grads img image_height image_width image_depth crop_height
       crop_width crop_depth depth b b_in y1 x1 z1 y2 x2 z2 height_ratio width_ratio
       depth_ratio height_scale width_scale depth_scale y grads_boxes =
     (let in_y = in_coord crop_height image_height y1 y2 height_scale y in
      if in_y < 0 \<or> in_y > real_of_int (image_height - 1) then grads_boxes
      else
        let top_y_index = \<lfloor>in_y\<rfloor>;
            bottom_y_index = \<lceil>in_y\<rceil>;
            y_lerp = in_y - real_of_int top_y_index
        in fold (CropAndResizeBackpropBoxes3D_x grads img image_height image_width image_depth
                   crop_height crop_width crop_depth depth b b_in x1 z1 x2 z2 height_ratio
                   width_ratio depth_ratio width_scale depth_scale y top_y_index
                   bottom_y_index y_lerp)
             [0..crop_width - 1] grads_boxes)"

text \<open>The body of the box loop.\<close>

definition CropAndResizeBackpropBoxes3D_b ::
  "real tensor \<Rightarrow> real tensor \<Rightarrow> real tensor \<Rightarrow>
   int tensor \<Rightarrow> int \<Rightarrow> int \<Rightarrow> int \<Rightarrow>
   int \<Rightarrow> int \<Rightarrow> int \<Rightarrow> int \<Rightarrow> int \<Rightarrow>
   int \<Rightarrow> (int list \<Rightarrow> real) \<Rightarrow> (int list \<Rightarrow> real)" where
  "CropAndResizeBackpropBoxes3D_b grads img boxes box_index batch_size image_height
       image_width image_depth crop_height crop_width crop_depth depth b grads_boxes =
     (let y1 = elems boxes [b, 0];
          x1 = elems boxes [b, 1];
          z1 = elems boxes [b, 2];
          y2 = elems boxes [b, 3];
          x2 = elems boxes [b, 4];
          z2 = elems boxes [b, 5];
          b_in = elems box_index [b]
      in if \<not> FastBoundsCheck b_in batch_size then grads_boxes
         else
           let height_ratio = crop_ratio crop_height image_height;
               width_ratio = crop_ratio crop_width image_width;
               depth_ratio = crop_ratio crop_depth image_depth;
               height_scale = ratio_scale crop_height height_ratio y1 y2;
               width_scale = ratio_scale crop_width width_ratio x1 x2;
               depth_scale = ratio_scale crop_depth depth_ratio z1 z2
           in fold (CropAndResizeBackpropBoxes3D_y grads img image_height image_width
                      image_depth crop_height crop_width crop_depth depth b b_in
                      y1 x1 z1 y2 x2 z2 height_ratio width_ratio depth_ratio
                      height_scale width_scale depth_scale)
                [0..crop_height - 1] grads_boxes)"

definition CropAndResizeBackpropBoxes3D :: "mem \<Rightarrow> bool \<times> mem" where
  "CropAndResizeBackpropBoxes3D m =
     (let batch_size = dimension (m_image m) 0;
          image_height = dimension (m_image m) 1;
          image_width = dimension (m_image m) 2;
          image_depth = dimension (m_image m) 3;
          num_boxes = dimension (m_grads m) 0;
          crop_height = dimension (m_grads m) 1;
          crop_width = dimension (m_grads m) 2;
          crop_depth = dimension (m_grads m) 3;
          depth = dimension (m_grads m) 4
      in (True, m\<lparr>m_grads_boxes := (m_grads_boxes m)\<lparr>elems :=
            fold (CropAndResizeBackpropBoxes3D_b (m_grads m) (m_image m) (m_boxes m)
                    (m_box_index m) batch_size image_height image_width image_depth
                    crop_height crop_width crop_depth depth)
              [0..num_boxes - 1] (\<lambda>idx. 0)\<rparr>\<rparr>))"

section \<open>The notions of the specification\<close>

text \<open>The coordinate mapping as the specification words it: grid index \<open>i\<close> of an axis
  with box endpoints \<open>(p1, p2)\<close>, source extent \<open>ext\<close> and crop extent \<open>crop\<close> is mapped to
  \<open>p1 * (ext - 1) + i * (p2 - p1) * (ext - 1) / (crop - 1)\<close> when \<open>crop > 1\<close> and to the
  midpoint \<open>0.5 * (p1 + p2) * (ext - 1)\<close> otherwise.\<close>

definition spec_in_coord :: "real \<Rightarrow> real \<Rightarrow> int \<Rightarrow> int \<Rightarrow> int \<Rightarrow> real" where
  "spec_in_coord p1 p2 ext crop i =
     (if crop > 1
      then p1 * real_of_int (ext - 1)
           + real_of_int i * (p2 - p1) * real_of_int (ext - 1) / real_of_int (crop - 1)
      else 0.5 * (p1 + p2) * real_of_int (ext - 1))"

text \<open>A mapped coordinate is out of bounds when it falls outside \<open>[0, ext - 1]\<close>.\<close>

definition out_of_image :: "real \<Rightarrow> int \<Rightarrow> bool" where
  "out_of_image in_c ext \<longleftrightarrow> in_c < 0 \<or> in_c > real_of_int (ext - 1)"

text \<open>The mapped coordinate of grid index \<open>i\<close> of box \<open>b\<close> on the axis whose endpoints are
  the columns \<open>j1\<close> and \<open>j2\<close> of \<open>boxes\<close> and whose extents are dimension \<open>n\<close> of the
  source-shaped tensor \<open>src\<close> and of the crop-shaped tensor \<open>out\<close>. In 2D the axes are
  \<open>y: (0, 2, 1)\<close> and \<open>x: (1, 3, 2)\<close>; in 3D they are \<open>y: (0, 3, 1)\<close>, \<open>x: (1, 4, 2)\<close> and
  \<open>z: (2, 5, 3)\<close>.\<close>

definition axis_coord ::
  "real tensor \<Rightarrow> 'a tensor \<Rightarrow> 'b tensor \<Rightarrow> int \<Rightarrow> int \<Rightarrow> int \<Rightarrow> nat \<Rightarrow> int \<Rightarrow> real" where
  "axis_coord boxes src out b j1 j2 n i =
     spec_in_coord (elems boxes [b, j1]) (elems boxes [b, j2])
       (dimension src n) (dimension out n) i"

definition axis_out ::
  "real tensor \<Rightarrow> 'a tensor \<Rightarrow> 'b tensor \<Rightarrow> int \<Rightarrow> int \<Rightarrow> int \<Rightarrow> nat \<Rightarrow> int \<Rightarrow> bool" where
  "axis_out boxes src out b j1 j2 n i \<longleftrightarrow>
     out_of_image (axis_coord boxes src out b j1 j2 n i) (dimension src n)"

text \<open>The linear blend \<open>result = a + (b - a) * lerp\<close>, and bilinear and trilinear
  interpolation as the specification words them: the corners are the floor and the ceiling
  of the coordinate of the same axis, the weight is the fractional part, and the blends run
  along \<open>x\<close>, then \<open>y\<close>, then \<open>z\<close>.\<close>

definition blend :: "real \<Rightarrow> real \<Rightarrow> real \<Rightarrow> real" where
  "blend a b lerp = a + (b - a) * lerp"

definition spec_bilinear :: "real tensor \<Rightarrow> int \<Rightarrow> real \<Rightarrow> real \<Rightarrow> int \<Rightarrow> real" where
  "spec_bilinear img b_in in_y in_x d =
     (let x_lerp = in_x - real_of_int \<lfloor>in_x\<rfloor>;
          y_lerp = in_y - real_of_int \<lfloor>in_y\<rfloor>;
          top_v = blend (elems img [b_in, \<lfloor>in_y\<rfloor>, \<lfloor>in_x\<rfloor>, d])
                    (elems img [b_in, \<lfloor>in_y\<rfloor>, \<lceil>in_x\<rceil>, d]) x_lerp;
          bottom_v = blend (elems img [b_in, \<lceil>in_y\<rceil>, \<lfloor>in_x\<rfloor>, d])
                       (elems img [b_in, \<lceil>in_y\<rceil>, \<lceil>in_x\<rceil>, d]) x_lerp
      in blend top_v bottom_v y_lerp)"

definition spec_trilinear ::
  "real tensor \<Rightarrow> int \<Rightarrow> real \<Rightarrow> real \<Rightarrow> real \<Rightarrow> int \<Rightarrow> real" where
  "spec_trilinear img b_in in_y in_x in_z d =
     (let x_lerp = in_x - real_of_int \<lfloor>in_x\<rfloor>;
          y_lerp = in_y - real_of_int \<lfloor>in_y\<rfloor>;
          z_lerp = in_z - real_of_int \<lfloor>in_z\<rfloor>;
          plane = (\<lambda>k.
            blend
              (blend (elems img [b_in, \<lfloor>in_y\<rfloor>, \<lfloor>in_x\<rfloor>, k, d])
                 (elems img [b_in, \<lfloor>in_y\<rfloor>, \<lceil>in_x\<rceil>, k, d]) x_lerp)
              (blend (elems img [b_in, \<lceil>in_y\<rceil>, \<lfloor>in_x\<rfloor>, k, d])
                 (elems img [b_in, \<lceil>in_y\<rceil>, \<lceil>in_x\<rceil>, k, d]) x_lerp)
              y_lerp)
      in blend (plane \<lfloor>in_z\<rfloor>) (plane \<lceil>in_z\<rceil>) z_lerp)"

text \<open>The weight of source index \<open>i\<close> of an axis in the linear interpolation at the
  coordinate \<open>in_c\<close> of that axis: \<open>1 - lerp\<close> for the floor, \<open>lerp\<close> for the ceiling (both
  for an integral coordinate, where floor and ceiling meet and \<open>lerp = 0\<close>), 0 elsewhere.
  The bilinear or trilinear weight of a corner is the product over the axes.\<close>

definition spec_corner_weight :: "real \<Rightarrow> int \<Rightarrow> real" where
  "spec_corner_weight in_c i =
     (if i = \<lfloor>in_c\<rfloor> then 1 - (in_c - real_of_int \<lfloor>in_c\<rfloor>) else 0)
     + (if i = \<lceil>in_c\<rceil> then in_c - real_of_int \<lfloor>in_c\<rfloor> else 0)"


text \<open>A loop body accumulates when it adds to every element an amount that does not depend
  on what the array holds.\<close>

definition accumulates :: "(('k \<Rightarrow> real) \<Rightarrow> ('k \<Rightarrow> real)) \<Rightarrow> bool" where
  "accumulates F \<longleftrightarrow> (\<exists>c. \<forall>acc k. F acc k = acc k + c k)"

section \<open>Reasoning about loops of writes\<close>

text \<open>Every loop body of the kernels transforms the output array element by element: the
  new value of an element depends on the old value of that element only (\<open>pointwise\<close>), and
  the body of iteration \<open>i\<close> leaves alone every element whose index tuple does not carry
  \<open>i\<close> in the loop's position (\<open>untouched\<close>).\<close>

definition pointwise :: "(('k \<Rightarrow> 'v) \<Rightarrow> ('k \<Rightarrow> 'v)) \<Rightarrow> bool" where
  "pointwise F \<longleftrightarrow> (\<forall>s s' k. s k = s' k \<longrightarrow> F s k = F s' k)"

definition untouched :: "(('k \<Rightarrow> 'v) \<Rightarrow> ('k \<Rightarrow> 'v)) \<Rightarrow> 'k \<Rightarrow> bool" where
  "untouched F k \<longleftrightarrow> (\<forall>s. F s k = s k)"

text \<open>The boxes of a call whose image index passes the kernels' check, in loop order.\<close>

definition valid_boxes :: "int tensor \<Rightarrow> int \<Rightarrow> int \<Rightarrow> int list" where
  "valid_boxes box_index batch_size num_boxes =
     filter (\<lambda>b. FastBoundsCheck (elems box_index [b]) batch_size) [0..num_boxes - 1]"

text \<open>The image gradient as the specification words it, for the 2D kernel: starting from
  zero, every box with a valid index, every cell of it whose mapped coordinate is inside
  the image on both axes, and every channel adds the incoming gradient times the bilinear
  weight to the corners that enclose the coordinate. The sum below is what thereby reaches
  the element \<open>(bi, iy, ix, di)\<close>.\<close>

definition spec_image_gradient :: "mem \<Rightarrow> int \<Rightarrow> int \<Rightarrow> int \<Rightarrow> int \<Rightarrow> real" where
  "spec_image_gradient m bi iy ix di =
     (\<Sum>b\<leftarrow>valid_boxes (m_box_index m) (dimension (m_grads_image m) 0) (dimension (m_grads m) 0).
      \<Sum>y\<leftarrow>[0..dimension (m_grads m) 1 - 1].
      \<Sum>x\<leftarrow>[0..dimension (m_grads m) 2 - 1].
      \<Sum>d\<leftarrow>[0..dimension (m_grads m) 3 - 1].
        (let in_y = axis_coord (m_boxes m) (m_grads_image m) (m_grads m) b 0 2 1 y;
             in_x = axis_coord (m_boxes m) (m_grads_image m) (m_grads m) b 1 3 2 x
         in if out_of_image in_y (dimension (m_grads_image m) 1)
               \<or> out_of_image in_x (dimension (m_grads_image m) 2)
               \<or> elems (m_box_index m) [b] \<noteq> bi \<or> d \<noteq> di
            then 0
            else elems (m_grads m) [b, y, x, d]
                 * spec_corner_weight in_y iy * spec_corner_weight in_x ix))"

section \<open>Example inputs\<close>

text \<open>A tensor given by its shape and finitely many elements; every other element is
  \<open>dflt\<close>.\<close>

definition mk_tensor :: "int list \<Rightarrow> (int list \<times> 'a) list \<Rightarrow> 'a \<Rightarrow> 'a tensor" where
  "mk_tensor sh kvs dflt =
     \<lparr>shape = sh, elems = (\<lambda>idx. case map_of kvs idx of Some v \<Rightarrow> v | None \<Rightarrow> dflt)\<rparr>"

definition no_tensor :: "real tensor" where
  "no_tensor = mk_tensor [] [] 0"

text \<open>The scenario of the specification: image shape \<open>[1,2,2,1]\<close> with values
  \<open>[[0,1],[2,3]]\<close>, one box \<open>[0,0,1,1]\<close> on image 0, crop size \<open>[2,2]\<close>. The output buffer
  starts with 9 everywhere.\<close>

definition ex_identity :: mem where
  "ex_identity =
     \<lparr>m_image = mk_tensor [1, 2, 2, 1]
                  [([0, 0, 0, 0], 0), ([0, 0, 1, 0], 1), ([0, 1, 0, 0], 2), ([0, 1, 1, 0], 3)] 0,
      m_boxes = mk_tensor [1, 4] [([0, 0], 0), ([0, 1], 0), ([0, 2], 1), ([0, 3], 1)] 0,
      m_box_index = mk_tensor [1] [([0], 0)] 0,
      m_grads = no_tensor,
      m_crops = mk_tensor [1, 2, 2, 1] [] 9,
      m_grads_image = no_tensor,
      m_grads_boxes = no_tensor\<rparr>"

text \<open>The same call with the box pointing at image 5 of a batch of one image.\<close>

definition ex_skip :: mem where
  "ex_skip = ex_identity\<lparr>m_box_index := mk_tensor [1] [([0], 5)] 0\<rparr>"


text \<open>A 3D call on an image of shape \<open>[1,1,1,2,1]\<close> (two samples along \<open>z\<close>, 0 and 2), with
  one box on image 0 whose \<open>z\<close> range is \<open>[0, 1]\<close>, crop size \<open>[1,1,1]\<close> and incoming
  gradient 1: the only cell is mapped to \<open>(in_y, in_x, in_z) = (0, 0, 1/2)\<close>.\<close>

definition ex_depth :: mem where
  "ex_depth =
     \<lparr>m_image = mk_tensor [1, 1, 1, 2, 1] [([0, 0, 0, 0, 0], 0), ([0, 0, 0, 1, 0], 2)] 0,
      m_boxes = mk_tensor [1, 6]
                  [([0, 0], 0), ([0, 1], 0), ([0, 2], 0), ([0, 3], 0), ([0, 4], 0), ([0, 5], 1)] 0,
      m_box_index = mk_tensor [1] [([0], 0)] 0,
      m_grads = mk_tensor [1, 1, 1, 1, 1] [([0, 0, 0, 0, 0], 1)] 0,
      m_crops = mk_tensor [1, 1, 1, 1, 1] [] 9,
      m_grads_image = mk_tensor [1, 1, 1, 2, 1] [] 9,
      m_grads_boxes = mk_tensor [1, 6] [] 9\<rparr>"

text \<open>A 3D call on an image of shape \<open>[1,2,2,2,1]\<close> that is 0 except for the value 8 at
  \<open>(y, x, z) = (1, 0, 0)\<close>, with the box \<open>[0,0,0,1,1,1]\<close> and crop size \<open>[1,1,1]\<close>: the only
  cell is mapped to the centre \<open>(1/2, 1/2, 1/2)\<close> of the image.\<close>

definition ex_centre :: mem where
  "ex_centre =
     \<lparr>m_image = mk_tensor [1, 2, 2, 2, 1] [([0, 1, 0, 0, 0], 8)] 0,
      m_boxes = mk_tensor [1, 6]
                  [([0, 0], 0), ([0, 1], 0), ([0, 2], 0), ([0, 3], 1), ([0, 4], 1), ([0, 5], 1)] 0,
      m_box_index = mk_tensor [1] [([0], 0)] 0,
      m_grads = mk_tensor [1, 1, 1, 1, 1] [([0, 0, 0, 0, 0], 1)] 0,
      m_crops = mk_tensor [1, 1, 1, 1, 1] [] 9,
      m_grads_image = mk_tensor [1, 2, 2, 2, 1] [] 9,
      m_grads_boxes = mk_tensor [1, 6] [] 9\<rparr>"

text \<open>A 3D call on an image of shape \<open>[1,1,3,2,1]\<close> with the box \<open>[0,1,0,0,1,1]\<close>, crop size
  \<open>[1,1,1]\<close> and incoming gradient 1: the only cell is mapped to
  \<open>(in_y, in_x, in_z) = (0, 2, 1/2)\<close>, inside the image on every axis. The image is given
  by its element function \<open>f\<close>.\<close>

definition ex_wide :: "(int list \<Rightarrow> real) \<Rightarrow> mem" where
  "ex_wide f =
     \<lparr>m_image = \<lparr>shape = [1, 1, 3, 2, 1], elems = f\<rparr>,
      m_boxes = mk_tensor [1, 6]
                  [([0, 0], 0), ([0, 1], 1), ([0, 2], 0), ([0, 3], 0), ([0, 4], 1), ([0, 5], 1)] 0,
      m_box_index = mk_tensor [1] [([0], 0)] 0,
      m_grads = mk_tensor [1, 1, 1, 1, 1] [([0, 0, 0, 0, 0], 1)] 0,
      m_crops = mk_tensor [1, 1, 1, 1, 1] [] 9,
      m_grads_image = mk_tensor [1, 1, 3, 2, 1] [] 9,
      m_grads_boxes = mk_tensor [1, 6] [] 9\<rparr>"

section \<open>Lemmas on loops\<close>

lemma pointwiseD: "pointwise F \<Longrightarrow> s k = s' k \<Longrightarrow> F s k = F s' k"
  unfolding pointwise_def by blast

lemma untouchedD: "untouched F k \<Longrightarrow> F s k = s k"
  unfolding untouched_def by blast

lemma pointwise_write: "pointwise (\<lambda>s. s(a := v))"
  by (simp add: pointwise_def)

lemma pointwise_add_at: "pointwise (\<lambda>s. add_at s a v)"
  by (simp add: pointwise_def add_at_def)

lemma pointwise_fold:
  assumes "\<And>i. i \<in> set xs \<Longrightarrow> pointwise (F i)"
  shows "pointwise (fold F xs)"
  using assms
proof (induction xs)
  case Nil
  show ?case by (simp add: pointwise_def)
next
  case (Cons x xs)
  have px: "pointwise (F x)" and pr: "pointwise (fold F xs)"
    using Cons by simp_all
  show ?case
    unfolding pointwise_def
  proof (intro allI impI)
    fix s s' :: "'b \<Rightarrow> 'c" and k
    assume "s k = s' k"
    then have "F x s k = F x s' k" by (rule pointwiseD[OF px])
    then have "fold F xs (F x s) k = fold F xs (F x s') k" by (rule pointwiseD[OF pr])
    then show "fold F (x # xs) s k = fold F (x # xs) s' k" by simp
  qed
qed

lemma untouched_write: "k \<noteq> a \<Longrightarrow> untouched (\<lambda>s. s(a := v)) k"
  by (simp add: untouched_def)

lemma untouched_fold:
  assumes "\<And>i. i \<in> set xs \<Longrightarrow> untouched (F i) k"
  shows "untouched (fold F xs) k"
proof -
  have "fold F xs s k = s k" if "set xs \<subseteq> set xs0" "\<And>i. i \<in> set xs0 \<Longrightarrow> untouched (F i) k"
    for s xs0
    using that
  proof (induction xs arbitrary: s)
    case Nil
    show ?case by simp
  next
    case (Cons x xs)
    have "untouched (F x) k" using Cons.prems by simp
    then have "F x s k = s k" by (rule untouchedD)
    moreover have "fold F xs (F x s) k = F x s k" using Cons by simp
    ultimately show ?case by simp
  qed
  then show ?thesis using assms unfolding untouched_def by blast
qed

lemma fold_coord:
  assumes pw: "\<And>i. i \<in> set xs \<Longrightarrow> pointwise (F i)"
      and un: "\<And>i. i \<in> set xs \<Longrightarrow> i \<noteq> c \<Longrightarrow> untouched (F i) k"
      and d: "distinct xs"
  shows "fold F xs s k = (if c \<in> set xs then F c s k else s k)"
  using assms
proof (induction xs arbitrary: s)
  case Nil
  show ?case by simp
next
  case (Cons x xs)
  have IH: "\<And>t. fold F xs t k = (if c \<in> set xs then F c t k else t k)"
    using Cons by simp
  show ?case
  proof (cases "x = c")
    case True
    then have "c \<notin> set xs" using Cons.prems(3) by simp
    then show ?thesis using IH True by simp
  next
    case False
    then have "untouched (F x) k" using Cons.prems(2)[of x] by simp
    then have u: "F x s k = s k" by (rule untouchedD)
    show ?thesis
    proof (cases "c \<in> set xs")
      case True
      then have "pointwise (F c)" using Cons.prems(1) by simp
      then have "F c (F x s) k = F c s k" using u by (rule pointwiseD)
      then show ?thesis using IH True False by simp
    next
      case False
      then show ?thesis using IH u \<open>x \<noteq> c\<close> by simp
    qed
  qed
qed

lemma pointwiseI: "(\<And>s s' k. s k = s' k \<Longrightarrow> F s k = F s' k) \<Longrightarrow> pointwise F"
  unfolding pointwise_def by blast

lemma untouchedI: "(\<And>s. F s k = s k) \<Longrightarrow> untouched F k"
  by (simp add: untouched_def)


lemma pointwise_if:
  "(c \<Longrightarrow> pointwise F) \<Longrightarrow> (\<not> c \<Longrightarrow> pointwise G) \<Longrightarrow> pointwise (\<lambda>s. if c then F s else G s)"
  by (cases c) simp_all

lemma pointwise_id: "pointwise (\<lambda>s. s)"
  by (simp add: pointwise_def)

lemma untouched_if:
  "(c \<Longrightarrow> untouched F k) \<Longrightarrow> (\<not> c \<Longrightarrow> untouched G k) \<Longrightarrow> untouched (\<lambda>s. if c then F s else G s) k"
  by (cases c) simp_all

lemma untouched_id: "untouched (\<lambda>s. s) k"
  by (simp add: untouched_def)

lemmas pw_intros = pointwise_if pointwise_fold pointwise_write pointwise_id
lemmas un_intros = untouched_if untouched_fold untouched_write untouched_id

lemma CropAndResize_x_pointwise: "pointwise (CropAndResize_x img ev image_width crop_width depth b b_in x1 x2
       width_scale y top_y_index bottom_y_index y_lerp x)"
  unfolding CropAndResize_x_def[abs_def] Let_def
  by (intro pw_intros)

lemma CropAndResize_x_untouched: "k ! 2 \<noteq> x \<Longrightarrow> untouched (CropAndResize_x img ev image_width crop_width depth b b_in x1 x2
       width_scale y top_y_index bottom_y_index y_lerp x) k"
  unfolding CropAndResize_x_def[abs_def] Let_def
  by (intro un_intros) auto

lemma CropAndResize_y_pointwise: "pointwise (CropAndResize_y img ev image_height image_width crop_height crop_width
       depth b b_in y1 x1 y2 x2 height_scale width_scale y)"
  unfolding CropAndResize_y_def[abs_def] Let_def
  by (intro pw_intros CropAndResize_x_pointwise)

lemma CropAndResize_y_untouched: "k ! 1 \<noteq> y \<Longrightarrow> untouched (CropAndResize_y img ev image_height image_width crop_height crop_width
       depth b b_in y1 x1 y2 x2 height_scale width_scale y) k"
  unfolding CropAndResize_y_def[abs_def] CropAndResize_x_def[abs_def] Let_def
  by (intro un_intros) auto


lemma fill_cell:
  assumes "0 \<le> d" "d < depth" and that: "\<And>i. i \<noteq> d \<Longrightarrow> key i \<noteq> key d"
  shows "fold (\<lambda>d crops. crops(key d := V d)) [0..depth - 1] s (key d) = V d"
proof -
  have "fold (\<lambda>d crops. crops(key d := V d)) [0..depth - 1] s (key d)
        = (if d \<in> set [0..depth - 1] then (s(key d := V d)) (key d) else s (key d))"
    by (rule fold_coord) (auto intro!: pointwise_write untouched_write that[symmetric])
  then show ?thesis using assms by simp
qed

lemma CropAndResize_x_cell:
  assumes "0 \<le> d" "d < depth"
  shows "CropAndResize_x img ev image_width crop_width depth b b_in x1 x2
           width_scale y top_y_index bottom_y_index y_lerp x s [b, y, x, d] =
         (let in_x = in_coord crop_width image_width x1 x2 width_scale x in
          if in_x < 0 \<or> in_x > real_of_int (image_width - 1) then ev
          else CropAndResize_pixel img b_in top_y_index bottom_y_index \<lfloor>in_x\<rfloor> \<lceil>in_x\<rceil>
                 (in_x - real_of_int \<lfloor>in_x\<rfloor>) y_lerp d)"
  unfolding CropAndResize_x_def Let_def
  using assms by (simp add: fill_cell[where key="\<lambda>d. [b, y, x, d]"])


lemma fold_upto_cell:
  assumes "0 \<le> c" "c < n"
      and "\<And>i. pointwise (F i)"
      and "\<And>i. i \<noteq> c \<Longrightarrow> untouched (F i) k"
  shows "fold F [0..n - 1] s k = F c s k"
proof -
  have "fold F [0..n - 1] s k = (if c \<in> set [0..n - 1] then F c s k else s k)"
    by (rule fold_coord) (simp_all add: assms(3,4))
  then show ?thesis using assms(1,2) by simp
qed

lemma CropAndResize_y_cell:
  assumes "0 \<le> x" "x < crop_width" "0 \<le> d" "d < depth"
  shows "CropAndResize_y img ev image_height image_width crop_height crop_width
           depth b b_in y1 x1 y2 x2 height_scale width_scale y s [b, y, x, d] =
         (let in_y = in_coord crop_height image_height y1 y2 height_scale y in
          if in_y < 0 \<or> in_y > real_of_int (image_height - 1) then ev
          else CropAndResize_x img ev image_width crop_width depth b b_in x1 x2
                 width_scale y \<lfloor>in_y\<rfloor> \<lceil>in_y\<rceil> (in_y - real_of_int \<lfloor>in_y\<rfloor>) x s [b, y, x, d])"
proof -
  have a: "fold (\<lambda>x. fold (\<lambda>d crops. crops([b, y, x, d] := ev)) [0..depth - 1])
             [0..crop_width - 1] s [b, y, x, d]
           = fold (\<lambda>d crops. crops([b, y, x, d] := ev)) [0..depth - 1] s [b, y, x, d]"
    using assms(1,2)
    by (rule fold_upto_cell) (auto intro!: pw_intros un_intros)
  have b: "fold (\<lambda>d crops. crops([b, y, x, d] := ev)) [0..depth - 1] s [b, y, x, d] = ev"
    using assms(3,4) by (simp add: fill_cell[where key="\<lambda>d. [b, y, x, d]"])
  have c: "fold (CropAndResize_x img ev image_width crop_width depth b b_in x1 x2
                   width_scale y ty by yl) [0..crop_width - 1] s [b, y, x, d]
           = CropAndResize_x img ev image_width crop_width depth b b_in x1 x2
                   width_scale y ty by yl x s [b, y, x, d]" for ty "by" yl
    using assms(1,2)
    by (rule fold_upto_cell) (auto intro!: CropAndResize_x_pointwise CropAndResize_x_untouched)
  show ?thesis
    unfolding CropAndResize_y_def Let_def by (simp add: a b c)
qed

lemma CropAndResizePerBox_pointwise: "pointwise (CropAndResizePerBox img boxes box_index ev batch_size image_height
       image_width crop_height crop_width depth b)"
  unfolding CropAndResizePerBox_def[abs_def] Let_def
  by (intro pw_intros CropAndResize_y_pointwise)

lemma CropAndResizePerBox_untouched: "k ! 0 \<noteq> b \<Longrightarrow> untouched (CropAndResizePerBox img boxes box_index ev batch_size image_height
       image_width crop_height crop_width depth b) k"
  unfolding CropAndResizePerBox_def[abs_def] CropAndResize_y_def[abs_def] CropAndResize_x_def[abs_def] Let_def
  by (intro un_intros) auto

lemma CropAndResizePerBox_cell:
  assumes "FastBoundsCheck (elems box_index [b]) batch_size" "0 \<le> y" "y < crop_height"
  shows "CropAndResizePerBox img boxes box_index ev batch_size image_height
           image_width crop_height crop_width depth b s [b, y, x, d] =
         CropAndResize_y img ev image_height image_width crop_height crop_width depth b
           (elems box_index [b]) (elems boxes [b, 0]) (elems boxes [b, 1]) (elems boxes [b, 2])
           (elems boxes [b, 3])
           (crop_scale crop_height image_height (elems boxes [b, 0]) (elems boxes [b, 2]))
           (crop_scale crop_width image_width (elems boxes [b, 1]) (elems boxes [b, 3]))
           y s [b, y, x, d]"
proof -
  have "fold (CropAndResize_y img ev image_height image_width crop_height crop_width depth b
                b_in y1 x1 y2 x2 hs ws) [0..crop_height - 1] s [b, y, x, d]
        = CropAndResize_y img ev image_height image_width crop_height crop_width depth b
                b_in y1 x1 y2 x2 hs ws y s [b, y, x, d]" for b_in y1 x1 y2 x2 hs ws
    using assms(2,3)
    by (rule fold_upto_cell) (auto intro!: CropAndResize_y_pointwise CropAndResize_y_untouched)
  then show ?thesis
    unfolding CropAndResizePerBox_def Let_def using assms(1) by simp
qed

lemma CropAndResize_kernel_cell:
  assumes "0 \<le> b" "b < dimension (m_crops m) 0"
  shows "elems (m_crops (snd (CropAndResize ev m))) [b, y, x, d] =
         CropAndResizePerBox (m_image m) (m_boxes m) (m_box_index m) ev
           (dimension (m_image m) 0) (dimension (m_image m) 1) (dimension (m_image m) 2)
           (dimension (m_crops m) 1) (dimension (m_crops m) 2) (dimension (m_crops m) 3)
           b (elems (m_crops m)) [b, y, x, d]"
proof -
  have "fold (CropAndResizePerBox img boxes box_index ev' bs ih iw ch cw dp)
          [0..dimension (m_crops m) 0 - 1] s [b, y, x, d]
        = CropAndResizePerBox img boxes box_index ev' bs ih iw ch cw dp b s [b, y, x, d]"
    for img boxes box_index ev' bs ih iw ch cw dp s
    using assms
    by (rule fold_upto_cell) (auto intro!: CropAndResizePerBox_pointwise CropAndResizePerBox_untouched)
  then show ?thesis
    unfolding CropAndResize_def Let_def by simp
qed

lemma in_shape4:
  assumes "in_shape (shape t) [i0, i1, i2, i3]"
  shows "0 \<le> i0 \<and> i0 < dimension t 0 \<and> 0 \<le> i1 \<and> i1 < dimension t 1 \<and>
         0 \<le> i2 \<and> i2 < dimension t 2 \<and> 0 \<le> i3 \<and> i3 < dimension t 3"
  using assms unfolding in_shape_def dimension_def
  by (auto simp: list_all2_Cons1)

lemma in_shape5:
  assumes "in_shape (shape t) [i0, i1, i2, i3, i4]"
  shows "0 \<le> i0 \<and> i0 < dimension t 0 \<and> 0 \<le> i1 \<and> i1 < dimension t 1 \<and>
         0 \<le> i2 \<and> i2 < dimension t 2 \<and> 0 \<le> i3 \<and> i3 < dimension t 3 \<and>
         0 \<le> i4 \<and> i4 < dimension t 4"
  using assms unfolding in_shape_def dimension_def
  by (auto simp: list_all2_Cons1)

section \<open>The coordinate mapping\<close>


section \<open>Boxes with an invalid image index\<close>

lemma fold_filter_skip:
  assumes "\<And>i. i \<in> set xs \<Longrightarrow> \<not> P i \<Longrightarrow> F i = (\<lambda>s. s)"
  shows "fold F xs = fold F (filter P xs)"
  using assms by (induction xs) (auto simp: fun_eq_iff)

lemma CropAndResizePerBox_skip:
  "\<not> FastBoundsCheck (elems box_index [b]) batch_size \<Longrightarrow>
   CropAndResizePerBox img boxes box_index ev batch_size image_height image_width crop_height crop_width depth
     b = (\<lambda>s. s)"
  by (rule ext) (simp add: CropAndResizePerBox_def)

lemma CropAndResizePerBox3D_skip:
  "\<not> FastBoundsCheck (elems box_index [b]) batch_size \<Longrightarrow>
   CropAndResizePerBox3D img boxes box_index ev batch_size image_height image_width image_depth crop_height crop_width crop_depth depth
     b = (\<lambda>s. s)"
  by (rule ext) (simp add: CropAndResizePerBox3D_def)

lemma CropAndResizeBackpropImage_b_skip:
  "\<not> FastBoundsCheck (elems box_index [b]) batch_size \<Longrightarrow>
   CropAndResizeBackpropImage_b grads boxes box_index batch_size image_height image_width crop_height crop_width depth
     b = (\<lambda>s. s)"
  by (rule ext) (simp add: CropAndResizeBackpropImage_b_def)

lemma CropAndResizeBackpropImage3D_b_skip:
  "\<not> FastBoundsCheck (elems box_index [b]) batch_size \<Longrightarrow>
   CropAndResizeBackpropImage3D_b grads boxes box_index batch_size image_height image_width image_depth crop_height crop_width crop_depth depth
     b = (\<lambda>s. s)"
  by (rule ext) (simp add: CropAndResizeBackpropImage3D_b_def)

lemma CropAndResizeBackpropBoxes_b_skip:
  "\<not> FastBoundsCheck (elems box_index [b]) batch_size \<Longrightarrow>
   CropAndResizeBackpropBoxes_b grads img boxes box_index batch_size image_height image_width crop_height crop_width depth
     b = (\<lambda>s. s)"
  by (rule ext) (simp add: CropAndResizeBackpropBoxes_b_def)

lemma CropAndResizeBackpropBoxes3D_b_skip:
  "\<not> FastBoundsCheck (elems box_index [b]) batch_size \<Longrightarrow>
   CropAndResizeBackpropBoxes3D_b grads img boxes box_index batch_size image_height image_width image_depth crop_height crop_width crop_depth depth
     b = (\<lambda>s. s)"
  by (rule ext) (simp add: CropAndResizeBackpropBoxes3D_b_def)

lemma CropAndResize_valid_boxes:
  "CropAndResize ev m =
     (True, m\<lparr>m_crops := (m_crops m)\<lparr>elems :=
        fold (CropAndResizePerBox (m_image m) (m_boxes m) (m_box_index m) ev
                 (dimension (m_image m) 0) (dimension (m_image m) 1) (dimension (m_image m) 2)
                 (dimension (m_crops m) 1) (dimension (m_crops m) 2) (dimension (m_crops m) 3))
          (valid_boxes (m_box_index m) (dimension (m_image m) 0) (dimension (m_crops m) 0))
          (elems (m_crops m))\<rparr>\<rparr>)"
  unfolding CropAndResize_def Let_def valid_boxes_def
  by (simp add: fold_filter_skip[symmetric] CropAndResizePerBox_skip)

lemma CropAndResize3D_valid_boxes:
  "CropAndResize3D ev m =
     (True, m\<lparr>m_crops := (m_crops m)\<lparr>elems :=
        fold (CropAndResizePerBox3D (m_image m) (m_boxes m) (m_box_index m) ev
                 (dimension (m_image m) 0) (dimension (m_image m) 1) (dimension (m_image m) 2)
                 (dimension (m_image m) 3) (dimension (m_crops m) 1) (dimension (m_crops m) 2)
                 (dimension (m_crops m) 3) (dimension (m_crops m) 4))
          (valid_boxes (m_box_index m) (dimension (m_image m) 0) (dimension (m_crops m) 0))
          (elems (m_crops m))\<rparr>\<rparr>)"
  unfolding CropAndResize3D_def Let_def valid_boxes_def
  by (simp add: fold_filter_skip[symmetric] CropAndResizePerBox3D_skip)

lemma CropAndResizeBackpropImage_valid_boxes:
  "CropAndResizeBackpropImage m =
     (True, m\<lparr>m_grads_image := (m_grads_image m)\<lparr>elems :=
        fold (CropAndResizeBackpropImage_b (m_grads m) (m_boxes m) (m_box_index m)
                 (dimension (m_grads_image m) 0) (dimension (m_grads_image m) 1)
                 (dimension (m_grads_image m) 2) (dimension (m_grads m) 1)
                 (dimension (m_grads m) 2) (dimension (m_grads m) 3))
          (valid_boxes (m_box_index m) (dimension (m_grads_image m) 0) (dimension (m_grads m) 0))
          (\<lambda>idx. 0)\<rparr>\<rparr>)"
  unfolding CropAndResizeBackpropImage_def Let_def valid_boxes_def
  by (simp add: fold_filter_skip[symmetric] CropAndResizeBackpropImage_b_skip)

lemma CropAndResizeBackpropImage3D_valid_boxes:
  "CropAndResizeBackpropImage3D m =
     (True, m\<lparr>m_grads_image := (m_grads_image m)\<lparr>elems :=
        fold (CropAndResizeBackpropImage3D_b (m_grads m) (m_boxes m) (m_box_index m)
                 (dimension (m_grads_image m) 0) (dimension (m_grads_image m) 1)
                 (dimension (m_grads_image m) 2) (dimension (m_grads_image m) 3)
                 (dimension (m_grads m) 1) (dimension (m_grads m) 2)
                 (dimension (m_grads m) 3) (dimension (m_grads m) 4))
          (valid_boxes (m_box_index m) (dimension (m_grads_image m) 0) (dimension (m_grads m) 0))
          (\<lambda>idx. 0)\<rparr>\<rparr>)"
  unfolding CropAndResizeBackpropImage3D_def Let_def valid_boxes_def
  by (simp add: fold_filter_skip[symmetric] CropAndResizeBackpropImage3D_b_skip)

lemma CropAndResizeBackpropBoxes_valid_boxes:
  "CropAndResizeBackpropBoxes m =
     (True, m\<lparr>m_grads_boxes := (m_grads_boxes m)\<lparr>elems :=
        fold (CropAndResizeBackpropBoxes_b (m_grads m) (m_image m) (m_boxes m) (m_box_index m)
                 (dimension (m_image m) 0) (dimension (m_image m) 1) (dimension (m_image m) 2)
                 (dimension (m_grads m) 1) (dimension (m_grads m) 2) (dimension (m_grads m) 3))
          (valid_boxes (m_box_index m) (dimension (m_image m) 0) (dimension (m_grads m) 0))
          (\<lambda>idx. 0)\<rparr>\<rparr>)"
  unfolding CropAndResizeBackpropBoxes_def Let_def valid_boxes_def
  by (simp add: fold_filter_skip[symmetric] CropAndResizeBackpropBoxes_b_skip)

lemma CropAndResizeBackpropBoxes3D_valid_boxes:
  "CropAndResizeBackpropBoxes3D m =
     (True, m\<lparr>m_grads_boxes := (m_grads_boxes m)\<lparr>elems :=
        fold (CropAndResizeBackpropBoxes3D_b (m_grads m) (m_image m) (m_boxes m) (m_box_index m)
                 (dimension (m_image m) 0) (dimension (m_image m) 1) (dimension (m_image m) 2)
                 (dimension (m_image m) 3) (dimension (m_grads m) 1) (dimension (m_grads m) 2)
                 (dimension (m_grads m) 3) (dimension (m_grads m) 4))
          (valid_boxes (m_box_index m) (dimension (m_image m) 0) (dimension (m_grads m) 0))
          (\<lambda>idx. 0)\<rparr>\<rparr>)"
  unfolding CropAndResizeBackpropBoxes3D_def Let_def valid_boxes_def
  by (simp add: fold_filter_skip[symmetric] CropAndResizeBackpropBoxes3D_b_skip)

text \<open>
  Claim C6. A box whose image index lies outside \<open>[0, batch_size)\<close> is skipped by each of
  the six kernels: the iteration of the box loop for that box returns the forward output
  or the gradient accumulator as it found it, whatever it holds; each kernel computes
  exactly what its box loop computes over the boxes with a valid index (\<open>valid_boxes\<close>);
  and each kernel returns \<open>True\<close>: no error is raised.
\<close>

theorem invalid_box_is_skipped:
  assumes "\<not> FastBoundsCheck (elems box_index [b]) batch_size"
  shows
    "CropAndResizePerBox img boxes box_index ev batch_size image_height image_width
       crop_height crop_width depth
       b crops = crops \<and>
     CropAndResizePerBox3D img boxes box_index ev batch_size image_height image_width
       image_depth crop_height crop_width crop_depth depth
       b crops = crops \<and>
     CropAndResizeBackpropImage_b grads boxes box_index batch_size image_height image_width
       crop_height crop_width depth
       b grads_image = grads_image \<and>
     CropAndResizeBackpropImage3D_b grads boxes box_index batch_size image_height image_width
       image_depth crop_height crop_width crop_depth depth
       b grads_image = grads_image \<and>
     CropAndResizeBackpropBoxes_b grads img boxes box_index batch_size image_height image_width
       crop_height crop_width depth
       b grads_boxes = grads_boxes \<and>
     CropAndResizeBackpropBoxes3D_b grads img boxes box_index batch_size image_height image_width
       image_depth crop_height crop_width crop_depth depth
       b grads_boxes = grads_boxes \<and>
     CropAndResize ev m =
       (True, m\<lparr>m_crops := (m_crops m)\<lparr>elems :=
          fold (CropAndResizePerBox (m_image m) (m_boxes m) (m_box_index m) ev
                 (dimension (m_image m) 0) (dimension (m_image m) 1) (dimension (m_image m) 2)
                 (dimension (m_crops m) 1) (dimension (m_crops m) 2) (dimension (m_crops m) 3))
            (valid_boxes (m_box_index m) (dimension (m_image m) 0) (dimension (m_crops m) 0))
            (elems (m_crops m))\<rparr>\<rparr>) \<and>
     CropAndResize3D ev m =
       (True, m\<lparr>m_crops := (m_crops m)\<lparr>elems :=
          fold (CropAndResizePerBox3D (m_image m) (m_boxes m) (m_box_index m) ev
                 (dimension (m_image m) 0) (dimension (m_image m) 1) (dimension (m_image m) 2)
                 (dimension (m_image m) 3) (dimension (m_crops m) 1) (dimension (m_crops m) 2)
                 (dimension (m_crops m) 3) (dimension (m_crops m) 4))
            (valid_boxes (m_box_index m) (dimension (m_image m) 0) (dimension (m_crops m) 0))
            (elems (m_crops m))\<rparr>\<rparr>) \<and>
     CropAndResizeBackpropImage m =
       (True, m\<lparr>m_grads_image := (m_grads_image m)\<lparr>elems :=
          fold (CropAndResizeBackpropImage_b (m_grads m) (m_boxes m) (m_box_index m)
                 (dimension (m_grads_image m) 0) (dimension (m_grads_image m) 1)
                 (dimension (m_grads_image m) 2) (dimension (m_grads m) 1)
                 (dimension (m_grads m) 2) (dimension (m_grads m) 3))
            (valid_boxes (m_box_index m) (dimension (m_grads_image m) 0) (dimension (m_grads m) 0))
            (\<lambda>idx. 0)\<rparr>\<rparr>) \<and>
     CropAndResizeBackpropImage3D m =
       (True, m\<lparr>m_grads_image := (m_grads_image m)\<lparr>elems :=
          fold (CropAndResizeBackpropImage3D_b (m_grads m) (m_boxes m) (m_box_index m)
                 (dimension (m_grads_image m) 0) (dimension (m_grads_image m) 1)
                 (dimension (m_grads_image m) 2) (dimension (m_grads_image m) 3)
                 (dimension (m_grads m) 1) (dimension (m_grads m) 2)
                 (dimension (m_grads m) 3) (dimension (m_grads m) 4))
            (valid_boxes (m_box_index m) (dimension (m_grads_image m) 0) (dimension (m_grads m) 0))
            (\<lambda>idx. 0)\<rparr>\<rparr>) \<and>
     CropAndResizeBackpropBoxes m =
       (True, m\<lparr>m_grads_boxes := (m_grads_boxes m)\<lparr>elems :=
          fold (CropAndResizeBackpropBoxes_b (m_grads m) (m_image m) (m_boxes m) (m_box_index m)
                 (dimension (m_image m) 0) (dimension (m_image m) 1) (dimension (m_image m) 2)
                 (dimension (m_grads m) 1) (dimension (m_grads m) 2) (dimension (m_grads m) 3))
            (valid_boxes (m_box_index m) (dimension (m_image m) 0) (dimension (m_grads m) 0))
            (\<lambda>idx. 0)\<rparr>\<rparr>) \<and>
     CropAndResizeBackpropBoxes3D m =
       (True, m\<lparr>m_grads_boxes := (m_grads_boxes m)\<lparr>elems :=
          fold (CropAndResizeBackpropBoxes3D_b (m_grads m) (m_image m) (m_boxes m) (m_box_index m)
                 (dimension (m_image m) 0) (dimension (m_image m) 1) (dimension (m_image m) 2)
                 (dimension (m_image m) 3) (dimension (m_grads m) 1) (dimension (m_grads m) 2)
                 (dimension (m_grads m) 3) (dimension (m_grads m) 4))
            (valid_boxes (m_box_index m) (dimension (m_image m) 0) (dimension (m_grads m) 0))
            (\<lambda>idx. 0)\<rparr>\<rparr>)"
  by (intro conjI CropAndResize_valid_boxes CropAndResize3D_valid_boxes
        CropAndResizeBackpropImage_valid_boxes CropAndResizeBackpropImage3D_valid_boxes
        CropAndResizeBackpropBoxes_valid_boxes CropAndResizeBackpropBoxes3D_valid_boxes)
     (simp_all add: CropAndResizePerBox_skip[OF assms] CropAndResizePerBox3D_skip[OF assms]
        CropAndResizeBackpropImage_b_skip[OF assms] CropAndResizeBackpropImage3D_b_skip[OF assms]
        CropAndResizeBackpropBoxes_b_skip[OF assms] CropAndResizeBackpropBoxes3D_b_skip[OF assms])

lemma ex_skip_invalid:
  "\<not> FastBoundsCheck (elems (m_box_index ex_skip) [0]) (dimension (m_image ex_skip) 0)"
  by (simp add: ex_skip_def ex_identity_def mk_tensor_def dimension_def FastBoundsCheck_def)

theorem invalid_box_is_skipped_witness:
  "\<not> FastBoundsCheck (elems (m_box_index ex_skip) [0]) (dimension (m_image ex_skip) 0) \<and>
   CropAndResizePerBox (m_image ex_skip) (m_boxes ex_skip) (m_box_index ex_skip) 7
     (dimension (m_image ex_skip) 0) 2 2 2 2 1 0 (elems (m_crops ex_skip))
     = elems (m_crops ex_skip) \<and>
   fst (CropAndResize 7 ex_skip) \<and>
   elems (m_crops (snd (CropAndResize 7 ex_skip))) [0, 1, 1, 0] = 9"
proof -
  note r = invalid_box_is_skipped [OF ex_skip_invalid, where m = ex_skip and ev = 7]
  have v: "valid_boxes (m_box_index ex_skip) (dimension (m_image ex_skip) 0)
             (dimension (m_crops ex_skip) 0) = []"
    by (simp add: valid_boxes_def ex_skip_def ex_identity_def mk_tensor_def dimension_def
          FastBoundsCheck_def)
  have c: "elems (m_crops ex_skip) [0, 1, 1, 0] = 9"
    by (simp add: ex_skip_def ex_identity_def mk_tensor_def)
  show ?thesis
    using ex_skip_invalid r c by (simp add: v)
qed

section \<open>The image is only read\<close>

text \<open>
  Claim C8. No kernel modifies the image batch: after each of the six kernels the image
  tensor of the call is the one before the call.
\<close>

theorem image_is_never_modified:
  "m_image (snd (CropAndResize ev m)) = m_image m \<and>
   m_image (snd (CropAndResize3D ev m)) = m_image m \<and>
   m_image (snd (CropAndResizeBackpropImage m)) = m_image m \<and>
   m_image (snd (CropAndResizeBackpropImage3D m)) = m_image m \<and>
   m_image (snd (CropAndResizeBackpropBoxes m)) = m_image m \<and>
   m_image (snd (CropAndResizeBackpropBoxes3D m)) = m_image m"
  by (simp add: CropAndResize_def CropAndResize3D_def CropAndResizeBackpropImage_def
        CropAndResizeBackpropImage3D_def CropAndResizeBackpropBoxes_def
        CropAndResizeBackpropBoxes3D_def Let_def)

lemma in_coord_is_crop:
  "in_coord crop ext p1 p2 (crop_scale crop ext p1 p2) i = spec_in_coord p1 p2 ext crop i"
  by (simp add: in_coord_def crop_scale_def spec_in_coord_def)

lemma in_coord_is_ratio:
  "in_coord crop ext p1 p2 (ratio_scale crop (crop_ratio crop ext) p1 p2) i
     = spec_in_coord p1 p2 ext crop i"
  by (simp add: in_coord_def ratio_scale_def crop_ratio_def spec_in_coord_def)

section \<open>The cells of the forward outputs\<close>

text \<open>What the 2D forward kernel leaves in a cell of the output.\<close>

lemma CropAndResize_cell:
  assumes cell: "in_shape (shape (m_crops m)) [b, y, x, d]"
      and valid: "FastBoundsCheck (elems (m_box_index m) [b]) (dimension (m_image m) 0)"
  shows "elems (m_crops (snd (CropAndResize ev m))) [b, y, x, d] =
         (let in_y = axis_coord (m_boxes m) (m_image m) (m_crops m) b 0 2 1 y;
              in_x = axis_coord (m_boxes m) (m_image m) (m_crops m) b 1 3 2 x
          in if out_of_image in_y (dimension (m_image m) 1)
                \<or> out_of_image in_x (dimension (m_image m) 2)
             then ev
             else CropAndResize_pixel (m_image m) (elems (m_box_index m) [b])
                    \<lfloor>in_y\<rfloor> \<lceil>in_y\<rceil> \<lfloor>in_x\<rfloor> \<lceil>in_x\<rceil>
                    (in_x - real_of_int \<lfloor>in_x\<rfloor>) (in_y - real_of_int \<lfloor>in_y\<rfloor>) d)"
proof -
  note r = in_shape4[OF cell]
  have b: "0 \<le> b" "b < dimension (m_crops m) 0" using r by simp_all
  have y: "0 \<le> y" "y < dimension (m_crops m) 1" using r by simp_all
  have x: "0 \<le> x" "x < dimension (m_crops m) 2" using r by simp_all
  have d: "0 \<le> d" "d < dimension (m_crops m) 3" using r by simp_all
  show ?thesis
    unfolding CropAndResize_kernel_cell[OF b]
      CropAndResizePerBox_cell[OF valid y]
      CropAndResize_y_cell[OF x d]
      CropAndResize_x_cell[OF d]
      axis_coord_def out_of_image_def
      in_coord_is_crop[symmetric] Let_def
    by simp
qed

text \<open>The same for the 3D forward kernel.\<close>

lemma CropAndResize3D_z_pointwise:
  "pointwise (CropAndResize3D_z img ev image_depth crop_depth depth b b_in z1 z2
       depth_scale y top_y_index bottom_y_index y_lerp x in_x left_x_index right_x_index
       x_lerp z)"
  unfolding CropAndResize3D_z_def[abs_def] Let_def
  by (intro pw_intros)

lemma CropAndResize3D_z_untouched:
  "k ! 3 \<noteq> z \<Longrightarrow>
   untouched (CropAndResize3D_z img ev image_depth crop_depth depth b b_in z1 z2
       depth_scale y top_y_index bottom_y_index y_lerp x in_x left_x_index right_x_index
       x_lerp z) k"
  unfolding CropAndResize3D_z_def[abs_def] Let_def
  by (intro un_intros) auto

lemma CropAndResize3D_x_pointwise:
  "pointwise (CropAndResize3D_x img ev image_width image_depth crop_width crop_depth
       depth b b_in x1 z1 x2 z2 width_scale depth_scale y top_y_index bottom_y_index y_lerp x)"
  unfolding CropAndResize3D_x_def[abs_def] Let_def
  by (intro pw_intros CropAndResize3D_z_pointwise)

lemma CropAndResize3D_x_untouched:
  "k ! 2 \<noteq> x \<Longrightarrow>
   untouched (CropAndResize3D_x img ev image_width image_depth crop_width crop_depth
       depth b b_in x1 z1 x2 z2 width_scale depth_scale y top_y_index bottom_y_index y_lerp x) k"
  unfolding CropAndResize3D_x_def[abs_def] CropAndResize3D_z_def[abs_def] Let_def
  by (intro un_intros) auto

lemma CropAndResize3D_y_pointwise:
  "pointwise (CropAndResize3D_y img ev image_height image_width image_depth
       crop_height crop_width crop_depth depth b b_in y1 x1 z1 y2 x2 z2
       height_scale width_scale depth_scale y)"
  unfolding CropAndResize3D_y_def[abs_def] Let_def
  by (intro pw_intros CropAndResize3D_x_pointwise)

lemma CropAndResize3D_y_untouched:
  "k ! 1 \<noteq> y \<Longrightarrow>
   untouched (CropAndResize3D_y img ev image_height image_width image_depth
       crop_height crop_width crop_depth depth b b_in y1 x1 z1 y2 x2 z2
       height_scale width_scale depth_scale y) k"
  unfolding CropAndResize3D_y_def[abs_def] CropAndResize3D_x_def[abs_def]
    CropAndResize3D_z_def[abs_def] Let_def
  by (intro un_intros) auto

lemma CropAndResizePerBox3D_pointwise:
  "pointwise (CropAndResizePerBox3D img boxes box_index ev batch_size image_height
       image_width image_depth crop_height crop_width crop_depth depth b)"
  unfolding CropAndResizePerBox3D_def[abs_def] Let_def
  by (intro pw_intros CropAndResize3D_y_pointwise)

lemma CropAndResizePerBox3D_untouched:
  "k ! 0 \<noteq> b \<Longrightarrow>
   untouched (CropAndResizePerBox3D img boxes box_index ev batch_size image_height
       image_width image_depth crop_height crop_width crop_depth depth b) k"
  unfolding CropAndResizePerBox3D_def[abs_def] CropAndResize3D_y_def[abs_def]
    CropAndResize3D_x_def[abs_def] CropAndResize3D_z_def[abs_def] Let_def
  by (intro un_intros) auto

lemma CropAndResize3D_z_cell:
  assumes "0 \<le> d" "d < depth"
  shows "CropAndResize3D_z img ev image_depth crop_depth depth b b_in z1 z2
       depth_scale y top_y_index bottom_y_index y_lerp x in_x left_x_index right_x_index
       x_lerp z s [b, y, x, z, d] =
         (let in_z = in_coord crop_depth image_depth z1 z2 depth_scale z in
          if in_z < 0 \<or> in_z > real_of_int (image_depth - 1) then ev
          else CropAndResize3D_pixel img b_in top_y_index bottom_y_index left_x_index
                 right_x_index \<lfloor>in_z\<rfloor> \<lceil>in_x\<rceil> x_lerp y_lerp
                 (in_z - real_of_int \<lfloor>in_z\<rfloor>) d)"
  unfolding CropAndResize3D_z_def Let_def
  using assms by (simp add: fill_cell[where key="\<lambda>d. [b, y, x, z, d]"])

lemma fill_cell2:
  assumes "0 \<le> z" "z < crop_depth" "0 \<le> d" "d < depth"
  shows "fold (\<lambda>z. fold (\<lambda>d crops. crops([b, y, x, z, d] := ev)) [0..depth - 1])
           [0..crop_depth - 1] s [b, y, x, z, d] = ev"
proof -
  have "fold (\<lambda>z. fold (\<lambda>d crops. crops([b, y, x, z, d] := ev)) [0..depth - 1])
          [0..crop_depth - 1] s [b, y, x, z, d]
        = fold (\<lambda>d crops. crops([b, y, x, z, d] := ev)) [0..depth - 1] s [b, y, x, z, d]"
    using assms(1,2)
    by (rule fold_upto_cell) (auto intro!: pw_intros un_intros)
  also have "\<dots> = ev"
    using assms(3,4) by (simp add: fill_cell[where key="\<lambda>d. [b, y, x, z, d]"])
  finally show ?thesis .
qed

lemma CropAndResize3D_x_cell:
  assumes "0 \<le> z" "z < crop_depth" "0 \<le> d" "d < depth"
  shows "CropAndResize3D_x img ev image_width image_depth crop_width crop_depth
       depth b b_in x1 z1 x2 z2 width_scale depth_scale y top_y_index bottom_y_index y_lerp x s [b, y, x, z, d] =
         (let in_x = in_coord crop_width image_width x1 x2 width_scale x in
          if in_x < 0 \<or> in_x > real_of_int (image_width - 1) then ev
          else CropAndResize3D_z img ev image_depth crop_depth depth b b_in z1 z2
                 depth_scale y top_y_index bottom_y_index y_lerp x in_x \<lfloor>in_x\<rfloor> \<lceil>in_x\<rceil>
                 (in_x - real_of_int \<lfloor>in_x\<rfloor>) z s [b, y, x, z, d])"
proof -
  have c: "fold (CropAndResize3D_z img ev image_depth crop_depth depth b b_in z1 z2
                   depth_scale y top_y_index bottom_y_index y_lerp x ix lx rx xl)
             [0..crop_depth - 1] s [b, y, x, z, d]
           = CropAndResize3D_z img ev image_depth crop_depth depth b b_in z1 z2
                   depth_scale y top_y_index bottom_y_index y_lerp x ix lx rx xl
                   z s [b, y, x, z, d]" for ix lx rx xl
    using assms(1,2)
    by (rule fold_upto_cell)
       (auto intro!: CropAndResize3D_z_pointwise CropAndResize3D_z_untouched)
  show ?thesis
    unfolding CropAndResize3D_x_def Let_def by (simp add: fill_cell2[OF assms] c)
qed

lemma CropAndResize3D_y_cell:
  assumes "0 \<le> x" "x < crop_width" "0 \<le> z" "z < crop_depth" "0 \<le> d" "d < depth"
  shows "CropAndResize3D_y img ev image_height image_width image_depth
       crop_height crop_width crop_depth depth b b_in y1 x1 z1 y2 x2 z2
       height_scale width_scale depth_scale y s [b, y, x, z, d] =
         (let in_y = in_coord crop_height image_height y1 y2 height_scale y in
          if in_y < 0 \<or> in_y > real_of_int (image_height - 1) then ev
          else CropAndResize3D_x img ev image_width image_depth crop_width crop_depth
                 depth b b_in x1 z1 x2 z2 width_scale depth_scale y \<lfloor>in_y\<rfloor> \<lceil>in_y\<rceil>
                 (in_y - real_of_int \<lfloor>in_y\<rfloor>) x s [b, y, x, z, d])"
proof -
  have a: "fold (\<lambda>x. fold (\<lambda>z. fold (\<lambda>d crops. crops([b, y, x, z, d] := ev))
                                       [0..depth - 1]) [0..crop_depth - 1])
             [0..crop_width - 1] s [b, y, x, z, d]
           = fold (\<lambda>z. fold (\<lambda>d crops. crops([b, y, x, z, d] := ev)) [0..depth - 1])
               [0..crop_depth - 1] s [b, y, x, z, d]"
    using assms(1,2)
    by (rule fold_upto_cell) (auto intro!: pw_intros un_intros)
  have c: "fold (CropAndResize3D_x img ev image_width image_depth crop_width crop_depth
                   depth b b_in x1 z1 x2 z2 width_scale depth_scale y ty by yl)
             [0..crop_width - 1] s [b, y, x, z, d]
           = CropAndResize3D_x img ev image_width image_depth crop_width crop_depth
                   depth b b_in x1 z1 x2 z2 width_scale depth_scale y ty by yl
                   x s [b, y, x, z, d]" for ty "by" yl
    using assms(1,2)
    by (rule fold_upto_cell)
       (auto intro!: CropAndResize3D_x_pointwise CropAndResize3D_x_untouched)
  show ?thesis
    unfolding CropAndResize3D_y_def Let_def
    by (simp add: a fill_cell2[OF assms(3,4,5,6)] c)
qed

lemma CropAndResizePerBox3D_cell:
  assumes "FastBoundsCheck (elems box_index [b]) batch_size" "0 \<le> y" "y < crop_height"
  shows "CropAndResizePerBox3D img boxes box_index ev batch_size image_height
       image_width image_depth crop_height crop_width crop_depth depth b s [b, y, x, z, d] =
         CropAndResize3D_y img ev image_height image_width image_depth
           crop_height crop_width crop_depth depth b (elems box_index [b])
           (elems boxes [b, 0]) (elems boxes [b, 1]) (elems boxes [b, 2])
           (elems boxes [b, 3]) (elems boxes [b, 4]) (elems boxes [b, 5])
           (crop_scale crop_height image_height (elems boxes [b, 0]) (elems boxes [b, 3]))
           (crop_scale crop_width image_width (elems boxes [b, 1]) (elems boxes [b, 4]))
           (crop_scale crop_depth image_depth (elems boxes [b, 2]) (elems boxes [b, 5]))
           y s [b, y, x, z, d]"
proof -
  have "fold (CropAndResize3D_y img ev image_height image_width image_depth
                crop_height crop_width crop_depth depth b b_in y1 x1 z1 y2 x2 z2 hs ws ds)
          [0..crop_height - 1] s [b, y, x, z, d]
        = CropAndResize3D_y img ev image_height image_width image_depth
                crop_height crop_width crop_depth depth b b_in y1 x1 z1 y2 x2 z2 hs ws ds
                y s [b, y, x, z, d]" for b_in y1 x1 z1 y2 x2 z2 hs ws ds
    using assms(2,3)
    by (rule fold_upto_cell)
       (auto intro!: CropAndResize3D_y_pointwise CropAndResize3D_y_untouched)
  then show ?thesis
    unfolding CropAndResizePerBox3D_def Let_def using assms(1) by simp
qed

lemma CropAndResize3D_kernel_cell:
  assumes "0 \<le> b" "b < dimension (m_crops m) 0"
  shows "elems (m_crops (snd (CropAndResize3D ev m))) [b, y, x, z, d] =
         CropAndResizePerBox3D (m_image m) (m_boxes m) (m_box_index m) ev
           (dimension (m_image m) 0) (dimension (m_image m) 1) (dimension (m_image m) 2)
           (dimension (m_image m) 3) (dimension (m_crops m) 1) (dimension (m_crops m) 2)
           (dimension (m_crops m) 3) (dimension (m_crops m) 4)
           b (elems (m_crops m)) [b, y, x, z, d]"
proof -
  have "fold (CropAndResizePerBox3D img boxes box_index ev' bs ih iw idp ch cw cd dp)
          [0..dimension (m_crops m) 0 - 1] s [b, y, x, z, d]
        = CropAndResizePerBox3D img boxes box_index ev' bs ih iw idp ch cw cd dp
            b s [b, y, x, z, d]"
    for img boxes box_index ev' bs ih iw idp ch cw cd dp s
    using assms
    by (rule fold_upto_cell)
       (auto intro!: CropAndResizePerBox3D_pointwise CropAndResizePerBox3D_untouched)
  then show ?thesis
    unfolding CropAndResize3D_def Let_def by simp
qed

lemma CropAndResize3D_cell:
  assumes cell: "in_shape (shape (m_crops m)) [b, y, x, z, d]"
      and valid: "FastBoundsCheck (elems (m_box_index m) [b]) (dimension (m_image m) 0)"
  shows "elems (m_crops (snd (CropAndResize3D ev m))) [b, y, x, z, d] =
         (let in_y = axis_coord (m_boxes m) (m_image m) (m_crops m) b 0 3 1 y;
              in_x = axis_coord (m_boxes m) (m_image m) (m_crops m) b 1 4 2 x;
              in_z = axis_coord (m_boxes m) (m_image m) (m_crops m) b 2 5 3 z
          in if out_of_image in_y (dimension (m_image m) 1)
                \<or> out_of_image in_x (dimension (m_image m) 2)
                \<or> out_of_image in_z (dimension (m_image m) 3)
             then ev
             else CropAndResize3D_pixel (m_image m) (elems (m_box_index m) [b])
                    \<lfloor>in_y\<rfloor> \<lceil>in_y\<rceil> \<lfloor>in_x\<rfloor> \<lceil>in_x\<rceil> \<lfloor>in_z\<rfloor> \<lceil>in_x\<rceil>
                    (in_x - real_of_int \<lfloor>in_x\<rfloor>) (in_y - real_of_int \<lfloor>in_y\<rfloor>)
                    (in_z - real_of_int \<lfloor>in_z\<rfloor>) d)"
proof -
  note r = in_shape5[OF cell]
  have b: "0 \<le> b" "b < dimension (m_crops m) 0" using r by simp_all
  have y: "0 \<le> y" "y < dimension (m_crops m) 1" using r by simp_all
  have x: "0 \<le> x" "x < dimension (m_crops m) 2" using r by simp_all
  have z: "0 \<le> z" "z < dimension (m_crops m) 3" using r by simp_all
  have d: "0 \<le> d" "d < dimension (m_crops m) 4" using r by simp_all
  show ?thesis
    unfolding CropAndResize3D_kernel_cell[OF b]
      CropAndResizePerBox3D_cell[OF valid y]
      CropAndResize3D_y_cell[OF x z d]
      CropAndResize3D_x_cell[OF z d]
      CropAndResize3D_z_cell[OF d]
      axis_coord_def out_of_image_def
      in_coord_is_crop[symmetric] Let_def
    by simp
qed

section \<open>The order of the boxes\<close>

text \<open>The forward kernels hand their boxes to \<^verbatim>\<open>Shard\<close>, which runs ranges of them in an
  order of its choice. The iterations of different boxes write different cells and read no
  cell, so that the box loop gives the same output in every order: running the boxes in
  index order loses nothing.\<close>

lemma CropAndResizePerBox_any_order:
  assumes "distinct xs" "distinct ys" "set xs = set ys"
  shows "fold (CropAndResizePerBox img boxes box_index ev batch_size image_height image_width
                 crop_height crop_width depth) xs s
         = fold (CropAndResizePerBox img boxes box_index ev batch_size image_height image_width
                 crop_height crop_width depth) ys s"
proof (rule ext)
  fix k
  let ?F = "CropAndResizePerBox img boxes box_index ev batch_size image_height image_width
              crop_height crop_width depth"
  have "fold ?F zs s k = (if k ! 0 \<in> set zs then ?F (k ! 0) s k else s k)"
    if "distinct zs" for zs
    by (rule fold_coord)
       (simp_all add: CropAndResizePerBox_pointwise CropAndResizePerBox_untouched that)
  then show "fold ?F xs s k = fold ?F ys s k"
    using assms by simp
qed

lemma CropAndResizePerBox3D_any_order:
  assumes "distinct xs" "distinct ys" "set xs = set ys"
  shows "fold (CropAndResizePerBox3D img boxes box_index ev batch_size image_height
                 image_width image_depth crop_height crop_width crop_depth depth) xs s
         = fold (CropAndResizePerBox3D img boxes box_index ev batch_size image_height
                 image_width image_depth crop_height crop_width crop_depth depth) ys s"
proof (rule ext)
  fix k
  let ?F = "CropAndResizePerBox3D img boxes box_index ev batch_size image_height
              image_width image_depth crop_height crop_width crop_depth depth"
  have "fold ?F zs s k = (if k ! 0 \<in> set zs then ?F (k ! 0) s k else s k)"
    if "distinct zs" for zs
    by (rule fold_coord)
       (simp_all add: CropAndResizePerBox3D_pointwise CropAndResizePerBox3D_untouched that)
  then show "fold ?F xs s k = fold ?F ys s k"
    using assms by simp
qed


section \<open>Cells mapped outside the image\<close>





section \<open>A box that covers the whole image\<close>




section \<open>The 3D kernels at concrete inputs\<close>

lemma ceiling_half: "\<lceil>1 / 2 :: real\<rceil> = 1"
  by (rule ceiling_unique) simp_all

lemmas CropAndResize3D_defs =
  CropAndResize3D_def CropAndResizePerBox3D_def CropAndResize3D_y_def CropAndResize3D_x_def
  CropAndResize3D_z_def CropAndResize3D_pixel_def crop_scale_def in_coord_def
  FastBoundsCheck_def dimension_def mk_tensor_def Let_def

lemmas CropAndResizeBackpropImage3D_defs =
  CropAndResizeBackpropImage3D_def CropAndResizeBackpropImage3D_b_def
  CropAndResizeBackpropImage3D_y_def CropAndResizeBackpropImage3D_x_def
  CropAndResizeBackpropImage3D_z_def CropAndResizeBackpropImage3D_d_def add_at_def
  crop_scale_def in_coord_def FastBoundsCheck_def dimension_def mk_tensor_def Let_def

lemmas axis_defs =
  axis_out_def axis_coord_def spec_in_coord_def out_of_image_def dimension_def mk_tensor_def

text \<open>
  Claim C1, at two inputs of the 3D forward kernel. In \<open>ex_depth\<close> the only cell is mapped
  to \<open>(0, 0, 1/2)\<close>, inside the image on every axis; trilinear interpolation of the samples
  0 and 2 gives 1, the kernel leaves 0, the sample at \<open>z = 0\<close>: its far corner index is the
  ceiling of \<open>in_x\<close>, not of \<open>in_z\<close>. In \<open>ex_centre\<close> the cell is mapped to the centre
  \<open>(1/2, 1/2, 1/2)\<close>, where the ceilings of \<open>in_x\<close> and \<open>in_z\<close> agree; trilinear
  interpolation of the single sample 8 among eight corners gives 1, the kernel leaves 0:
  its blend along \<open>x\<close> of the bottom back edge subtracts the bottom left front sample.
\<close>

theorem CropAndResize3D_is_not_trilinear:
  "axis_coord (m_boxes ex_depth) (m_image ex_depth) (m_crops ex_depth) 0 0 3 1 0 = 0 \<and>
   axis_coord (m_boxes ex_depth) (m_image ex_depth) (m_crops ex_depth) 0 1 4 2 0 = 0 \<and>
   axis_coord (m_boxes ex_depth) (m_image ex_depth) (m_crops ex_depth) 0 2 5 3 0 = 1 / 2 \<and>
   \<not> axis_out (m_boxes ex_depth) (m_image ex_depth) (m_crops ex_depth) 0 0 3 1 0 \<and>
   \<not> axis_out (m_boxes ex_depth) (m_image ex_depth) (m_crops ex_depth) 0 1 4 2 0 \<and>
   \<not> axis_out (m_boxes ex_depth) (m_image ex_depth) (m_crops ex_depth) 0 2 5 3 0 \<and>
   spec_trilinear (m_image ex_depth) 0 0 0 (1 / 2) 0 = 1 \<and>
   elems (m_crops (snd (CropAndResize3D 7 ex_depth))) [0, 0, 0, 0, 0] = 0 \<and>
   axis_coord (m_boxes ex_centre) (m_image ex_centre) (m_crops ex_centre) 0 0 3 1 0 = 1 / 2 \<and>
   axis_coord (m_boxes ex_centre) (m_image ex_centre) (m_crops ex_centre) 0 1 4 2 0 = 1 / 2 \<and>
   axis_coord (m_boxes ex_centre) (m_image ex_centre) (m_crops ex_centre) 0 2 5 3 0 = 1 / 2 \<and>
   \<not> axis_out (m_boxes ex_centre) (m_image ex_centre) (m_crops ex_centre) 0 0 3 1 0 \<and>
   \<not> axis_out (m_boxes ex_centre) (m_image ex_centre) (m_crops ex_centre) 0 1 4 2 0 \<and>
   \<not> axis_out (m_boxes ex_centre) (m_image ex_centre) (m_crops ex_centre) 0 2 5 3 0 \<and>
   spec_trilinear (m_image ex_centre) 0 (1 / 2) (1 / 2) (1 / 2) 0 = 1 \<and>
   elems (m_crops (snd (CropAndResize3D 7 ex_centre))) [0, 0, 0, 0, 0] = 0"
proof -
  have a: "axis_coord (m_boxes ex_depth) (m_image ex_depth) (m_crops ex_depth) 0 0 3 1 0 = 0"
          "axis_coord (m_boxes ex_depth) (m_image ex_depth) (m_crops ex_depth) 0 1 4 2 0 = 0"
          "axis_coord (m_boxes ex_depth) (m_image ex_depth) (m_crops ex_depth) 0 2 5 3 0 = 1 / 2"
          "\<not> axis_out (m_boxes ex_depth) (m_image ex_depth) (m_crops ex_depth) 0 0 3 1 0"
          "\<not> axis_out (m_boxes ex_depth) (m_image ex_depth) (m_crops ex_depth) 0 1 4 2 0"
          "\<not> axis_out (m_boxes ex_depth) (m_image ex_depth) (m_crops ex_depth) 0 2 5 3 0"
    by (simp_all add: axis_defs ex_depth_def)
  have b: "spec_trilinear (m_image ex_depth) 0 0 0 (1 / 2) 0 = 1"
    by (simp add: spec_trilinear_def blend_def ex_depth_def mk_tensor_def Let_def ceiling_half)
  have c: "elems (m_crops (snd (CropAndResize3D 7 ex_depth))) [0, 0, 0, 0, 0] = 0"
    by (simp add: CropAndResize3D_defs ex_depth_def)
  have d: "axis_coord (m_boxes ex_centre) (m_image ex_centre) (m_crops ex_centre) 0 0 3 1 0 = 1 / 2"
          "axis_coord (m_boxes ex_centre) (m_image ex_centre) (m_crops ex_centre) 0 1 4 2 0 = 1 / 2"
          "axis_coord (m_boxes ex_centre) (m_image ex_centre) (m_crops ex_centre) 0 2 5 3 0 = 1 / 2"
          "\<not> axis_out (m_boxes ex_centre) (m_image ex_centre) (m_crops ex_centre) 0 0 3 1 0"
          "\<not> axis_out (m_boxes ex_centre) (m_image ex_centre) (m_crops ex_centre) 0 1 4 2 0"
          "\<not> axis_out (m_boxes ex_centre) (m_image ex_centre) (m_crops ex_centre) 0 2 5 3 0"
    by (simp_all add: axis_defs ex_centre_def)
  have e: "spec_trilinear (m_image ex_centre) 0 (1 / 2) (1 / 2) (1 / 2) 0 = 1"
    by (simp add: spec_trilinear_def blend_def ex_centre_def mk_tensor_def Let_def ceiling_half)
  have f: "elems (m_crops (snd (CropAndResize3D 7 ex_centre))) [0, 0, 0, 0, 0] = 0"
    by (simp add: CropAndResize3D_defs ex_centre_def)
  show ?thesis
    by (intro conjI a b c d e f)
qed

text \<open>
  Claim C3, at an input of the 3D image-gradient kernel. In \<open>ex_depth\<close> the only cell is
  mapped to \<open>(0, 0, 1/2)\<close>, inside the image on every axis, and the incoming gradient is 1.
  The corners that enclose the coordinate are \<open>z = 0\<close> and \<open>z = 1\<close>, each with trilinear
  weight \<open>1/2\<close>. The kernel adds 1 at \<open>z = 0\<close> and nothing at \<open>z = 1\<close>: both of its corner
  indices along \<open>z\<close> are the floor and the ceiling of \<open>in_x\<close>.
\<close>

theorem CropAndResizeBackpropImage3D_misses_corner:
  "axis_coord (m_boxes ex_depth) (m_grads_image ex_depth) (m_grads ex_depth) 0 0 3 1 0 = 0 \<and>
   axis_coord (m_boxes ex_depth) (m_grads_image ex_depth) (m_grads ex_depth) 0 1 4 2 0 = 0 \<and>
   axis_coord (m_boxes ex_depth) (m_grads_image ex_depth) (m_grads ex_depth) 0 2 5 3 0 = 1 / 2 \<and>
   \<not> axis_out (m_boxes ex_depth) (m_grads_image ex_depth) (m_grads ex_depth) 0 0 3 1 0 \<and>
   \<not> axis_out (m_boxes ex_depth) (m_grads_image ex_depth) (m_grads ex_depth) 0 1 4 2 0 \<and>
   \<not> axis_out (m_boxes ex_depth) (m_grads_image ex_depth) (m_grads ex_depth) 0 2 5 3 0 \<and>
   elems (m_grads ex_depth) [0, 0, 0, 0, 0] = 1 \<and>
   spec_corner_weight 0 0 * spec_corner_weight 0 0 * spec_corner_weight (1 / 2) 0 = 1 / 2 \<and>
   spec_corner_weight 0 0 * spec_corner_weight 0 0 * spec_corner_weight (1 / 2) 1 = 1 / 2 \<and>
   elems (m_grads_image (snd (CropAndResizeBackpropImage3D ex_depth))) [0, 0, 0, 0, 0] = 1 \<and>
   elems (m_grads_image (snd (CropAndResizeBackpropImage3D ex_depth))) [0, 0, 0, 1, 0] = 0"
proof -
  have a: "axis_coord (m_boxes ex_depth) (m_grads_image ex_depth) (m_grads ex_depth) 0 0 3 1 0 = 0"
          "axis_coord (m_boxes ex_depth) (m_grads_image ex_depth) (m_grads ex_depth) 0 1 4 2 0 = 0"
          "axis_coord (m_boxes ex_depth) (m_grads_image ex_depth) (m_grads ex_depth) 0 2 5 3 0
           = 1 / 2"
          "\<not> axis_out (m_boxes ex_depth) (m_grads_image ex_depth) (m_grads ex_depth) 0 0 3 1 0"
          "\<not> axis_out (m_boxes ex_depth) (m_grads_image ex_depth) (m_grads ex_depth) 0 1 4 2 0"
          "\<not> axis_out (m_boxes ex_depth) (m_grads_image ex_depth) (m_grads ex_depth) 0 2 5 3 0"
          "elems (m_grads ex_depth) [0, 0, 0, 0, 0] = 1"
    by (simp_all add: axis_defs ex_depth_def)
  have b: "spec_corner_weight 0 0 * spec_corner_weight 0 0 * spec_corner_weight (1 / 2) 0 = 1 / 2"
          "spec_corner_weight 0 0 * spec_corner_weight 0 0 * spec_corner_weight (1 / 2) 1 = 1 / 2"
    by (simp_all add: spec_corner_weight_def ceiling_half)
  have c: "elems (m_grads_image (snd (CropAndResizeBackpropImage3D ex_depth))) [0, 0, 0, 0, 0] = 1"
          "elems (m_grads_image (snd (CropAndResizeBackpropImage3D ex_depth))) [0, 0, 0, 1, 0] = 0"
    by (simp_all add: CropAndResizeBackpropImage3D_defs ex_depth_def)
  show ?thesis
    by (intro conjI a b c)
qed

text \<open>
  Claim C10, at an input of the 3D forward and of the 3D image-gradient kernel. In
  \<open>ex_wide f\<close> the only cell is mapped to \<open>(0, 2, 1/2)\<close>, inside the image of shape
  \<open>[1,1,3,2,1]\<close> on every axis. The forward kernel leaves in the cell the mean of the image
  elements at \<open>z = 0\<close> and at \<open>z = 2\<close>, whatever the image holds, and the image-gradient
  kernel, which zeroes its output first, leaves the incoming gradient 1 at \<open>z = 2\<close> and 0
  at \<open>z = 0\<close> and \<open>z = 1\<close>: both access the index \<open>z = 2\<close> = \<open>\<lceil>in_x\<rceil>\<close>, which is not
  inside the shape.
\<close>

theorem CropAndResize3D_accesses_outside_shape:
  "axis_coord (m_boxes (ex_wide f)) (m_image (ex_wide f)) (m_crops (ex_wide f)) 0 0 3 1 0 = 0 \<and>
   axis_coord (m_boxes (ex_wide f)) (m_image (ex_wide f)) (m_crops (ex_wide f)) 0 1 4 2 0 = 2 \<and>
   axis_coord (m_boxes (ex_wide f)) (m_image (ex_wide f)) (m_crops (ex_wide f)) 0 2 5 3 0
     = 1 / 2 \<and>
   \<not> axis_out (m_boxes (ex_wide f)) (m_image (ex_wide f)) (m_crops (ex_wide f)) 0 0 3 1 0 \<and>
   \<not> axis_out (m_boxes (ex_wide f)) (m_image (ex_wide f)) (m_crops (ex_wide f)) 0 1 4 2 0 \<and>
   \<not> axis_out (m_boxes (ex_wide f)) (m_image (ex_wide f)) (m_crops (ex_wide f)) 0 2 5 3 0 \<and>
   \<not> in_shape (shape (m_image (ex_wide f))) [0, 0, 2, 2, 0] \<and>
   elems (m_crops (snd (CropAndResize3D ev (ex_wide f)))) [0, 0, 0, 0, 0]
     = (f [0, 0, 2, 0, 0] + f [0, 0, 2, 2, 0]) / 2 \<and>
   \<not> in_shape (shape (m_grads_image (ex_wide f))) [0, 0, 2, 2, 0] \<and>
   elems (m_grads_image (snd (CropAndResizeBackpropImage3D (ex_wide f)))) [0, 0, 2, 2, 0] = 1 \<and>
   elems (m_grads_image (snd (CropAndResizeBackpropImage3D (ex_wide f)))) [0, 0, 2, 0, 0] = 0 \<and>
   elems (m_grads_image (snd (CropAndResizeBackpropImage3D (ex_wide f)))) [0, 0, 2, 1, 0] = 0"
proof -
  have a: "axis_coord (m_boxes (ex_wide f)) (m_image (ex_wide f)) (m_crops (ex_wide f)) 0 0 3 1 0
           = 0"
          "axis_coord (m_boxes (ex_wide f)) (m_image (ex_wide f)) (m_crops (ex_wide f)) 0 1 4 2 0
           = 2"
          "axis_coord (m_boxes (ex_wide f)) (m_image (ex_wide f)) (m_crops (ex_wide f)) 0 2 5 3 0
           = 1 / 2"
          "\<not> axis_out (m_boxes (ex_wide f)) (m_image (ex_wide f)) (m_crops (ex_wide f)) 0 0 3 1 0"
          "\<not> axis_out (m_boxes (ex_wide f)) (m_image (ex_wide f)) (m_crops (ex_wide f)) 0 1 4 2 0"
          "\<not> axis_out (m_boxes (ex_wide f)) (m_image (ex_wide f)) (m_crops (ex_wide f)) 0 2 5 3 0"
    by (simp_all add: axis_defs ex_wide_def)
  have b: "\<not> in_shape (shape (m_image (ex_wide f))) [0, 0, 2, 2, 0]"
          "\<not> in_shape (shape (m_grads_image (ex_wide f))) [0, 0, 2, 2, 0]"
    by (simp_all add: in_shape_def ex_wide_def mk_tensor_def)
  have c: "elems (m_crops (snd (CropAndResize3D ev (ex_wide f)))) [0, 0, 0, 0, 0]
           = (f [0, 0, 2, 0, 0] + f [0, 0, 2, 2, 0]) / 2"
    by (simp add: CropAndResize3D_defs ex_wide_def field_simps)
  have d: "elems (m_grads_image (snd (CropAndResizeBackpropImage3D (ex_wide f)))) [0, 0, 2, 2, 0]
           = 1"
          "elems (m_grads_image (snd (CropAndResizeBackpropImage3D (ex_wide f)))) [0, 0, 2, 0, 0]
           = 0"
          "elems (m_grads_image (snd (CropAndResizeBackpropImage3D (ex_wide f)))) [0, 0, 2, 1, 0]
           = 0"
    by (simp_all add: CropAndResizeBackpropImage3D_defs ex_wide_def)
  show ?thesis
    by (intro conjI a b c d)
qed

section \<open>Interpolation in the 2D forward kernel\<close>

text \<open>The 2D half of claim C1: a cell of a valid box that is mapped inside the image on
  both axes holds the bilinear interpolation of the specification.\<close>

lemma CropAndResize_is_bilinear:
  assumes cell: "in_shape (shape (m_crops m)) [b, y, x, d]"
      and valid: "FastBoundsCheck (elems (m_box_index m) [b]) (dimension (m_image m) 0)"
      and iny: "\<not> axis_out (m_boxes m) (m_image m) (m_crops m) b 0 2 1 y"
      and inx: "\<not> axis_out (m_boxes m) (m_image m) (m_crops m) b 1 3 2 x"
  shows "elems (m_crops (snd (CropAndResize ev m))) [b, y, x, d] =
         spec_bilinear (m_image m) (elems (m_box_index m) [b])
           (axis_coord (m_boxes m) (m_image m) (m_crops m) b 0 2 1 y)
           (axis_coord (m_boxes m) (m_image m) (m_crops m) b 1 3 2 x) d"
  using iny inx
  unfolding CropAndResize_cell[OF cell valid] axis_out_def Let_def
  by (simp add: CropAndResize_pixel_def spec_bilinear_def blend_def Let_def)

section \<open>Accumulation in the gradient kernels\<close>

lemma accumulatesI: "(\<And>acc k. F acc k = acc k + c k) \<Longrightarrow> accumulates F"
  unfolding accumulates_def by blast

lemma accumulates_id: "accumulates (\<lambda>s. s)"
  by (rule accumulatesI[where c = "\<lambda>k. 0"]) simp

lemma accumulates_add_at: "accumulates (\<lambda>s. add_at s a v)"
  by (rule accumulatesI[where c = "\<lambda>k. if k = a then v else 0"]) (simp add: add_at_def)

lemma accumulates_comp:
  assumes "accumulates F" "accumulates G"
  shows "accumulates (\<lambda>s. G (F s))"
proof -
  obtain c where c: "\<And>acc k. F acc k = acc k + c k"
    using assms(1) unfolding accumulates_def by blast
  obtain e where e: "\<And>acc k. G acc k = acc k + e k"
    using assms(2) unfolding accumulates_def by blast
  have "G (F acc) k = acc k + (c k + e k)" for acc k
    unfolding e c by simp
  then show ?thesis by (rule accumulatesI)
qed

lemma accumulates_if:
  "(c \<Longrightarrow> accumulates F) \<Longrightarrow> (\<not> c \<Longrightarrow> accumulates G) \<Longrightarrow>
   accumulates (\<lambda>s. if c then F s else G s)"
  by (cases c) simp_all

lemma accumulates_fold:
  assumes "\<And>i. i \<in> set xs \<Longrightarrow> accumulates (F i)"
  shows "accumulates (fold F xs)"
  using assms
proof (induction xs)
  case Nil
  show ?case by (simp add: id_def accumulates_id)
next
  case (Cons x xs)
  have "accumulates (\<lambda>s. fold F xs (F x s))"
    by (rule accumulates_comp) (simp_all add: Cons)
  moreover have "fold F (x # xs) = (\<lambda>s. fold F xs (F x s))" by (rule ext) simp
  ultimately show ?case by simp
qed

lemma accumulates_add_at_comp: "accumulates F \<Longrightarrow> accumulates (\<lambda>s. add_at (F s) a v)"
  using accumulates_comp[OF _ accumulates_add_at] .

lemmas acc_rules = accumulates_if accumulates_fold accumulates_add_at_comp accumulates_id






section \<open>Accumulation in the 2D image-gradient kernel\<close>

text \<open>The 2D half of claim C3. One pass of the channel loop at a cell mapped to
  \<open>(in_y, in_x)\<close> adds to the image-gradient element \<open>(bi, iy, ix, di)\<close> the incoming gradient
  times the bilinear weight of \<open>(iy, ix)\<close>, when \<open>bi\<close> is the box's image and \<open>di\<close> the
  channel, and nothing otherwise; where corners coincide the amounts add up. The whole
  iteration of the box loop accumulates.\<close>

lemma CropAndResizeBackpropImage_d_adds:
  "CropAndResizeBackpropImage_d grads b b_in y x \<lfloor>in_y\<rfloor> \<lceil>in_y\<rceil> \<lfloor>in_x\<rfloor> \<lceil>in_x\<rceil>
     (in_x - real_of_int \<lfloor>in_x\<rfloor>) (in_y - real_of_int \<lfloor>in_y\<rfloor>) d acc [bi, iy, ix, di] =
   acc [bi, iy, ix, di]
   + (if bi = b_in \<and> di = d
      then elems grads [b, y, x, d] * spec_corner_weight in_y iy * spec_corner_weight in_x ix
      else 0)"
  by (simp add: CropAndResizeBackpropImage_d_def add_at_def spec_corner_weight_def Let_def
        algebra_simps)

lemma CropAndResizeBackpropImage_b_accumulates:
  "accumulates (CropAndResizeBackpropImage_b grads boxes box_index batch_size image_height
     image_width crop_height crop_width depth b)"
  unfolding CropAndResizeBackpropImage_b_def[abs_def] CropAndResizeBackpropImage_y_def[abs_def]
    CropAndResizeBackpropImage_x_def[abs_def] CropAndResizeBackpropImage_d_def[abs_def] Let_def
  by (intro acc_rules)

text \<open>The 2D image-gradient kernel computes the image gradient of the specification:
  every element of its output is the sum of the contributions of all boxes, cells and
  channels.\<close>

lemma fold_adds:
  assumes "\<And>i acc. i \<in> set xs \<Longrightarrow> F i acc k = acc k + c i"
  shows "fold F xs acc k = acc k + (\<Sum>i\<leftarrow>xs. c i)"
  using assms
proof (induction xs arbitrary: acc)
  case Nil
  show ?case by simp
next
  case (Cons x xs)
  have "fold F xs (F x acc) k = F x acc k + (\<Sum>i\<leftarrow>xs. c i)"
    by (rule Cons.IH) (simp add: Cons.prems)
  moreover have "F x acc k = acc k + c x" by (rule Cons.prems) simp
  ultimately show ?case by (simp add: add.assoc)
qed

lemma sum_list_if_zero:
  "(if A then 0 else (\<Sum>x\<leftarrow>xs. f x)) = (\<Sum>x\<leftarrow>xs. if A then 0 else (f x :: real))"
  by (cases A) simp_all

lemma CropAndResizeBackpropImage_x_adds:
  "CropAndResizeBackpropImage_x grads image_width crop_width depth b b_in x1 x2 width_scale y
     \<lfloor>in_y\<rfloor> \<lceil>in_y\<rceil> (in_y - real_of_int \<lfloor>in_y\<rfloor>) x acc [bi, iy, ix, di] =
   acc [bi, iy, ix, di]
   + (\<Sum>d\<leftarrow>[0..depth - 1].
       (let in_x = in_coord crop_width image_width x1 x2 width_scale x
        in if out_of_image in_x image_width \<or> b_in \<noteq> bi \<or> d \<noteq> di then 0
           else elems grads [b, y, x, d] * spec_corner_weight in_y iy
                * spec_corner_weight in_x ix))"
proof (cases "out_of_image (in_coord crop_width image_width x1 x2 width_scale x) image_width")
  case True
  then show ?thesis
    unfolding CropAndResizeBackpropImage_x_def out_of_image_def[symmetric] Let_def
    by simp
next
  case False
  let ?in_x = "in_coord crop_width image_width x1 x2 width_scale x"
  have "fold (CropAndResizeBackpropImage_d grads b b_in y x \<lfloor>in_y\<rfloor> \<lceil>in_y\<rceil> \<lfloor>?in_x\<rfloor> \<lceil>?in_x\<rceil>
                (?in_x - real_of_int \<lfloor>?in_x\<rfloor>) (in_y - real_of_int \<lfloor>in_y\<rfloor>))
          [0..depth - 1] acc [bi, iy, ix, di]
        = acc [bi, iy, ix, di]
          + (\<Sum>d\<leftarrow>[0..depth - 1].
              if bi = b_in \<and> di = d
              then elems grads [b, y, x, d] * spec_corner_weight in_y iy
                   * spec_corner_weight ?in_x ix
              else 0)"
    by (rule fold_adds) (rule CropAndResizeBackpropImage_d_adds)
  moreover have "(if bi = b_in \<and> di = d then t else 0)
                 = (if b_in \<noteq> bi \<or> d \<noteq> di then 0 else t)" for d and t :: real
    by auto
  ultimately show ?thesis
    using False
    unfolding CropAndResizeBackpropImage_x_def out_of_image_def[symmetric] Let_def
    by simp
qed


lemma CropAndResizeBackpropImage_y_adds:
  "CropAndResizeBackpropImage_y grads image_height image_width crop_height crop_width depth
     b b_in y1 x1 y2 x2 height_scale width_scale y acc [bi, iy, ix, di] =
   acc [bi, iy, ix, di]
   + (\<Sum>x\<leftarrow>[0..crop_width - 1]. \<Sum>d\<leftarrow>[0..depth - 1].
       (let in_y = in_coord crop_height image_height y1 y2 height_scale y;
            in_x = in_coord crop_width image_width x1 x2 width_scale x
        in if out_of_image in_y image_height \<or> out_of_image in_x image_width
              \<or> b_in \<noteq> bi \<or> d \<noteq> di then 0
           else elems grads [b, y, x, d] * spec_corner_weight in_y iy
                * spec_corner_weight in_x ix))"
proof (cases "out_of_image (in_coord crop_height image_height y1 y2 height_scale y) image_height")
  case True
  then show ?thesis
    unfolding CropAndResizeBackpropImage_y_def out_of_image_def[symmetric] Let_def
    by simp
next
  case False
  let ?in_y = "in_coord crop_height image_height y1 y2 height_scale y"
  have "fold (CropAndResizeBackpropImage_x grads image_width crop_width depth b b_in x1 x2
                width_scale y \<lfloor>?in_y\<rfloor> \<lceil>?in_y\<rceil> (?in_y - real_of_int \<lfloor>?in_y\<rfloor>))
          [0..crop_width - 1] acc [bi, iy, ix, di]
        = acc [bi, iy, ix, di]
          + (\<Sum>x\<leftarrow>[0..crop_width - 1]. \<Sum>d\<leftarrow>[0..depth - 1].
              (let in_x = in_coord crop_width image_width x1 x2 width_scale x
               in if out_of_image in_x image_width \<or> b_in \<noteq> bi \<or> d \<noteq> di then 0
                  else elems grads [b, y, x, d] * spec_corner_weight ?in_y iy
                       * spec_corner_weight in_x ix))"
    by (rule fold_adds) (rule CropAndResizeBackpropImage_x_adds)
  then show ?thesis
    using False
    unfolding CropAndResizeBackpropImage_y_def out_of_image_def[symmetric] Let_def
    by simp
qed

lemma CropAndResizeBackpropImage_b_adds:
  "CropAndResizeBackpropImage_b grads boxes box_index batch_size image_height image_width
     crop_height crop_width depth b acc [bi, iy, ix, di] =
   acc [bi, iy, ix, di]
   + (if FastBoundsCheck (elems box_index [b]) batch_size
      then (\<Sum>y\<leftarrow>[0..crop_height - 1]. \<Sum>x\<leftarrow>[0..crop_width - 1]. \<Sum>d\<leftarrow>[0..depth - 1].
             (let in_y = spec_in_coord (elems boxes [b, 0]) (elems boxes [b, 2])
                           image_height crop_height y;
                  in_x = spec_in_coord (elems boxes [b, 1]) (elems boxes [b, 3])
                           image_width crop_width x
              in if out_of_image in_y image_height \<or> out_of_image in_x image_width
                    \<or> elems box_index [b] \<noteq> bi \<or> d \<noteq> di then 0
                 else elems grads [b, y, x, d] * spec_corner_weight in_y iy
                      * spec_corner_weight in_x ix))
      else 0)"
proof (cases "FastBoundsCheck (elems box_index [b]) batch_size")
  case False
  then show ?thesis by (simp add: CropAndResizeBackpropImage_b_def)
next
  case True
  have "fold (CropAndResizeBackpropImage_y grads image_height image_width crop_height
                crop_width depth b b_in y1 x1 y2 x2 hs ws)
          [0..crop_height - 1] acc [bi, iy, ix, di]
        = acc [bi, iy, ix, di]
          + (\<Sum>y\<leftarrow>[0..crop_height - 1]. \<Sum>x\<leftarrow>[0..crop_width - 1]. \<Sum>d\<leftarrow>[0..depth - 1].
              (let in_y = in_coord crop_height image_height y1 y2 hs y;
                   in_x = in_coord crop_width image_width x1 x2 ws x
               in if out_of_image in_y image_height \<or> out_of_image in_x image_width
                     \<or> b_in \<noteq> bi \<or> d \<noteq> di then 0
                  else elems grads [b, y, x, d] * spec_corner_weight in_y iy
                       * spec_corner_weight in_x ix))" for b_in y1 x1 y2 x2 hs ws
    by (rule fold_adds) (rule CropAndResizeBackpropImage_y_adds)
  then show ?thesis
    using True
    unfolding CropAndResizeBackpropImage_b_def Let_def in_coord_is_crop[symmetric]
    by simp
qed

lemma CropAndResizeBackpropImage_is_spec:
  "elems (m_grads_image (snd (CropAndResizeBackpropImage m))) [bi, iy, ix, di]
   = spec_image_gradient m bi iy ix di"
proof -
  have k: "fold (CropAndResizeBackpropImage_b grads boxes box_index batch_size image_height
                image_width crop_height crop_width depth) xs (\<lambda>idx. 0) [bi, iy, ix, di]
        = (\<lambda>idx. 0) [bi, iy, ix, di]
          + (\<Sum>b\<leftarrow>xs.
              if FastBoundsCheck (elems box_index [b]) batch_size
              then (\<Sum>y\<leftarrow>[0..crop_height - 1]. \<Sum>x\<leftarrow>[0..crop_width - 1].
                    \<Sum>d\<leftarrow>[0..depth - 1].
                     (let in_y = spec_in_coord (elems boxes [b, 0]) (elems boxes [b, 2])
                                   image_height crop_height y;
                          in_x = spec_in_coord (elems boxes [b, 1]) (elems boxes [b, 3])
                                   image_width crop_width x
                      in if out_of_image in_y image_height \<or> out_of_image in_x image_width
                            \<or> elems box_index [b] \<noteq> bi \<or> d \<noteq> di then 0
                         else elems grads [b, y, x, d] * spec_corner_weight in_y iy
                              * spec_corner_weight in_x ix))
              else 0)"
    for grads boxes box_index batch_size image_height image_width crop_height crop_width
      depth xs
    by (rule fold_adds) (rule CropAndResizeBackpropImage_b_adds)
  have "elems (m_grads_image (snd (CropAndResizeBackpropImage m))) [bi, iy, ix, di]
        = fold (CropAndResizeBackpropImage_b (m_grads m) (m_boxes m) (m_box_index m)
                  (dimension (m_grads_image m) 0) (dimension (m_grads_image m) 1)
                  (dimension (m_grads_image m) 2) (dimension (m_grads m) 1)
                  (dimension (m_grads m) 2) (dimension (m_grads m) 3))
            [0..dimension (m_grads m) 0 - 1] (\<lambda>idx. 0) [bi, iy, ix, di]"
    by (simp add: CropAndResizeBackpropImage_def Let_def)
  then show ?thesis
    unfolding k spec_image_gradient_def valid_boxes_def axis_coord_def Let_def
    by (simp only: sum_list_map_filter' add_0)
qed

section \<open>What the outputs depend on\<close>

text \<open>In the 2D forward kernel every corner index of a cell mapped inside the image lies
  inside the image's shape (the 2D forward part of claim C10), so that the output depends
  on the image through the elements inside its shape only.\<close>

lemma corner_in_range:
  assumes "\<not> out_of_image in_c ext"
  shows "0 \<le> \<lfloor>in_c\<rfloor> \<and> \<lfloor>in_c\<rfloor> < ext \<and> 0 \<le> \<lceil>in_c\<rceil> \<and> \<lceil>in_c\<rceil> < ext"
proof -
  have a: "0 \<le> in_c" "in_c \<le> real_of_int (ext - 1)"
    using assms by (simp_all add: out_of_image_def)
  have c: "\<lceil>in_c\<rceil> \<le> ext - 1" using a(2) by (rule ceiling_le)
  have f: "0 \<le> \<lfloor>in_c\<rfloor>" using a(1) by simp
  have fc: "\<lfloor>in_c\<rfloor> \<le> \<lceil>in_c\<rceil>" by (rule floor_le_ceiling)
  show ?thesis using c f fc by (intro conjI) linarith+
qed

lemma CropAndResize_corners_in_shape:
  assumes cell: "in_shape (shape (m_crops m)) [b, y, x, d]"
      and valid: "FastBoundsCheck (elems (m_box_index m) [b]) (dimension (m_image m) 0)"
      and rank: "shape (m_image m) = [n, ih, iw, dimension (m_crops m) 3]"
      and iny: "\<not> axis_out (m_boxes m) (m_image m) (m_crops m) b 0 2 1 y"
      and inx: "\<not> axis_out (m_boxes m) (m_image m) (m_crops m) b 1 3 2 x"
      and cy: "cy = \<lfloor>axis_coord (m_boxes m) (m_image m) (m_crops m) b 0 2 1 y\<rfloor>
               \<or> cy = \<lceil>axis_coord (m_boxes m) (m_image m) (m_crops m) b 0 2 1 y\<rceil>"
      and cx: "cx = \<lfloor>axis_coord (m_boxes m) (m_image m) (m_crops m) b 1 3 2 x\<rfloor>
               \<or> cx = \<lceil>axis_coord (m_boxes m) (m_image m) (m_crops m) b 1 3 2 x\<rceil>"
  shows "in_shape (shape (m_image m)) [elems (m_box_index m) [b], cy, cx, d]"
proof -
  have dims: "dimension (m_image m) 0 = n" "dimension (m_image m) 1 = ih"
             "dimension (m_image m) 2 = iw"
    by (simp_all add: dimension_def rank)
  have d: "0 \<le> d" "d < dimension (m_crops m) 3" using in_shape4[OF cell] by simp_all
  have bi: "0 \<le> elems (m_box_index m) [b]" "elems (m_box_index m) [b] < n"
    using valid by (simp_all add: FastBoundsCheck_def dims)
  have y: "0 \<le> cy" "cy < ih"
    using corner_in_range[OF iny[unfolded axis_out_def]] cy unfolding dims by auto
  have x: "0 \<le> cx" "cx < iw"
    using corner_in_range[OF inx[unfolded axis_out_def]] cx unfolding dims by auto
  show ?thesis
    using d bi y x by (simp add: in_shape_def rank)
qed

lemma CropAndResize_function_of_image_in_shape:
  assumes cell: "in_shape (shape (m_crops m)) [b, y, x, d]"
      and valid: "FastBoundsCheck (elems (m_box_index m) [b]) (dimension (m_image m) 0)"
      and rank: "shape (m_image m) = [n, ih, iw, dimension (m_crops m) 3]"
      and agree: "\<And>idx. in_shape (shape (m_image m)) idx \<Longrightarrow> e idx = elems (m_image m) idx"
  shows "elems (m_crops (snd (CropAndResize ev (m\<lparr>m_image := (m_image m)\<lparr>elems := e\<rparr>\<rparr>))))
           [b, y, x, d]
         = elems (m_crops (snd (CropAndResize ev m))) [b, y, x, d]"
proof -
  let ?m' = "m\<lparr>m_image := (m_image m)\<lparr>elems := e\<rparr>\<rparr>"
  let ?in_y = "axis_coord (m_boxes m) (m_image m) (m_crops m) b 0 2 1 y"
  let ?in_x = "axis_coord (m_boxes m) (m_image m) (m_crops m) b 1 3 2 x"
  have cell': "in_shape (shape (m_crops ?m')) [b, y, x, d]" using cell by simp
  have dm: "dimension (m_image ?m') k = dimension (m_image m) k" for k
    by (simp add: dimension_def)
  have valid': "FastBoundsCheck (elems (m_box_index ?m') [b]) (dimension (m_image ?m') 0)"
    using valid unfolding dm by simp
  have ac: "axis_coord (m_boxes ?m') (m_image ?m') (m_crops ?m') b j1 j2 k i
            = axis_coord (m_boxes m) (m_image m) (m_crops m) b j1 j2 k i" for j1 j2 k i
    by (simp add: axis_coord_def dimension_def)
  show ?thesis
  proof (cases "axis_out (m_boxes m) (m_image m) (m_crops m) b 0 2 1 y
                \<or> axis_out (m_boxes m) (m_image m) (m_crops m) b 1 3 2 x")
    case True
    then show ?thesis
      unfolding CropAndResize_cell[OF cell valid] CropAndResize_cell[OF cell' valid'] ac dm
        axis_out_def Let_def
      by auto
  next
    case False
    then have iny: "\<not> axis_out (m_boxes m) (m_image m) (m_crops m) b 0 2 1 y"
          and inx: "\<not> axis_out (m_boxes m) (m_image m) (m_crops m) b 1 3 2 x" by simp_all
    have r: "e [elems (m_box_index m) [b], cy, cx, d]
             = elems (m_image m) [elems (m_box_index m) [b], cy, cx, d]"
      if "cy = \<lfloor>?in_y\<rfloor> \<or> cy = \<lceil>?in_y\<rceil>" "cx = \<lfloor>?in_x\<rfloor> \<or> cx = \<lceil>?in_x\<rceil>" for cy cx
      by (rule agree) (rule CropAndResize_corners_in_shape[OF cell valid rank iny inx that])
    have p: "CropAndResize_pixel (m_image ?m') (elems (m_box_index m) [b])
               \<lfloor>?in_y\<rfloor> \<lceil>?in_y\<rceil> \<lfloor>?in_x\<rfloor> \<lceil>?in_x\<rceil> xl yl d
             = CropAndResize_pixel (m_image m) (elems (m_box_index m) [b])
               \<lfloor>?in_y\<rfloor> \<lceil>?in_y\<rceil> \<lfloor>?in_x\<rfloor> \<lceil>?in_x\<rceil> xl yl d" for xl yl
      by (simp add: CropAndResize_pixel_def r)
    have sel: "m_box_index ?m' = m_box_index m" by simp
    show ?thesis
      unfolding CropAndResize_cell[OF cell valid] CropAndResize_cell[OF cell' valid'] ac dm
        sel Let_def p
      by (rule refl)
  qed
qed

text \<open>No kernel reads its output buffer: the gradient kernels zero it first, and the
  forward kernels overwrite every cell of a box with a valid index.\<close>

lemma backward_kernels_ignore_output_buffer:
  "elems (m_grads_image (snd (CropAndResizeBackpropImage
      (m\<lparr>m_grads_image := (m_grads_image m)\<lparr>elems := e\<rparr>\<rparr>))))
     = elems (m_grads_image (snd (CropAndResizeBackpropImage m)))"
  "elems (m_grads_image (snd (CropAndResizeBackpropImage3D
      (m\<lparr>m_grads_image := (m_grads_image m)\<lparr>elems := e\<rparr>\<rparr>))))
     = elems (m_grads_image (snd (CropAndResizeBackpropImage3D m)))"
  "elems (m_grads_boxes (snd (CropAndResizeBackpropBoxes
      (m\<lparr>m_grads_boxes := (m_grads_boxes m)\<lparr>elems := e\<rparr>\<rparr>))))
     = elems (m_grads_boxes (snd (CropAndResizeBackpropBoxes m)))"
  "elems (m_grads_boxes (snd (CropAndResizeBackpropBoxes3D
      (m\<lparr>m_grads_boxes := (m_grads_boxes m)\<lparr>elems := e\<rparr>\<rparr>))))
     = elems (m_grads_boxes (snd (CropAndResizeBackpropBoxes3D m)))"
  by (simp_all add: CropAndResizeBackpropImage_def CropAndResizeBackpropImage3D_def
        CropAndResizeBackpropBoxes_def CropAndResizeBackpropBoxes3D_def dimension_def Let_def)

lemma forward_kernels_ignore_output_buffer:
  assumes "FastBoundsCheck (elems (m_box_index m) [b]) (dimension (m_image m) 0)"
  shows "in_shape (shape (m_crops m)) [b, y, x, d] \<Longrightarrow>
         elems (m_crops (snd (CropAndResize ev (m\<lparr>m_crops := (m_crops m)\<lparr>elems := e\<rparr>\<rparr>))))
           [b, y, x, d]
         = elems (m_crops (snd (CropAndResize ev m))) [b, y, x, d]"
    and "in_shape (shape (m_crops m)) [b, y, x, z, d] \<Longrightarrow>
         elems (m_crops (snd (CropAndResize3D ev (m\<lparr>m_crops := (m_crops m)\<lparr>elems := e\<rparr>\<rparr>))))
           [b, y, x, z, d]
         = elems (m_crops (snd (CropAndResize3D ev m))) [b, y, x, z, d]"
proof -
  let ?m' = "m\<lparr>m_crops := (m_crops m)\<lparr>elems := e\<rparr>\<rparr>"
  have v: "FastBoundsCheck (elems (m_box_index ?m') [b]) (dimension (m_image ?m') 0)"
    using assms by simp
  have ac: "axis_coord (m_boxes ?m') (m_image ?m') (m_crops ?m') b j1 j2 k i
            = axis_coord (m_boxes m) (m_image m) (m_crops m) b j1 j2 k i" for j1 j2 k i
    by (simp add: axis_coord_def dimension_def)
  show "elems (m_crops (snd (CropAndResize ev ?m'))) [b, y, x, d]
        = elems (m_crops (snd (CropAndResize ev m))) [b, y, x, d]"
    if c: "in_shape (shape (m_crops m)) [b, y, x, d]"
  proof -
    have c': "in_shape (shape (m_crops ?m')) [b, y, x, d]" using c by simp
    show ?thesis
      unfolding CropAndResize_cell[OF c assms] CropAndResize_cell[OF c' v] ac
      by (simp add: Let_def)
  qed
  show "elems (m_crops (snd (CropAndResize3D ev ?m'))) [b, y, x, z, d]
        = elems (m_crops (snd (CropAndResize3D ev m))) [b, y, x, z, d]"
    if c: "in_shape (shape (m_crops m)) [b, y, x, z, d]"
  proof -
    have c': "in_shape (shape (m_crops ?m')) [b, y, x, z, d]" using c by simp
    show ?thesis
      unfolding CropAndResize3D_cell[OF c assms] CropAndResize3D_cell[OF c' v] ac
      by (simp add: Let_def)
  qed
qed

text \<open>
  Claim C9, at an input of the 3D forward kernel. The two calls \<open>ex_wide (\<lambda>idx. 0)\<close> and
  \<open>ex_wide ((\<lambda>idx. 0)([0,0,2,2,0] := 4))\<close> have the same boxes, box indices, crop size and
  extrapolation value, and images of the same shape \<open>[1,1,3,2,1]\<close> that agree on every
  element inside that shape: they differ only in what lies at the index tuple
  \<open>(0,0,2,2,0)\<close>, outside the shape. The only cell of the output, of a box with a valid
  index, is 0 in the first call and 2 in the second.
\<close>

theorem CropAndResize3D_depends_on_memory_outside_image:
  "in_shape (shape (m_crops (ex_wide (\<lambda>idx. 0)))) [0, 0, 0, 0, 0] \<and>
   FastBoundsCheck (elems (m_box_index (ex_wide (\<lambda>idx. 0))) [0])
     (dimension (m_image (ex_wide (\<lambda>idx. 0))) 0) \<and>
   \<not> in_shape (shape (m_image (ex_wide (\<lambda>idx. 0)))) [0, 0, 2, 2, 0] \<and>
   elems (m_crops (snd (CropAndResize3D 7 (ex_wide (\<lambda>idx. 0))))) [0, 0, 0, 0, 0] = 0 \<and>
   elems (m_crops (snd (CropAndResize3D 7 (ex_wide ((\<lambda>idx. 0)([0, 0, 2, 2, 0] := 4))))))
     [0, 0, 0, 0, 0] = 2"
proof -
  have a: "in_shape (shape (m_crops (ex_wide (\<lambda>idx. 0)))) [0, 0, 0, 0, 0]"
          "\<not> in_shape (shape (m_image (ex_wide (\<lambda>idx. 0)))) [0, 0, 2, 2, 0]"
    by (simp_all add: in_shape_def ex_wide_def mk_tensor_def)
  have b: "FastBoundsCheck (elems (m_box_index (ex_wide (\<lambda>idx. 0))) [0])
             (dimension (m_image (ex_wide (\<lambda>idx. 0))) 0)"
    by (simp add: ex_wide_def mk_tensor_def dimension_def FastBoundsCheck_def)
  have c: "elems (m_crops (snd (CropAndResize3D 7 (ex_wide (\<lambda>idx. 0))))) [0, 0, 0, 0, 0] = 0"
    by (simp add: CropAndResize3D_defs ex_wide_def)
  have d: "elems (m_crops (snd (CropAndResize3D 7 (ex_wide ((\<lambda>idx. 0)([0, 0, 2, 2, 0] := 4))))))
             [0, 0, 0, 0, 0] = 2"
    by (simp add: CropAndResize3D_defs ex_wide_def)
  show ?thesis
    by (intro conjI a b c d)
qed

end
